theory Spec2Isabelle
  imports Complex_Main "HOL-Library.AList" "HOL-Library.Extended_Nat" "HOL-Library.Monad_Syntax"
begin

section \<open>Values of the program\<close>

text \<open>
  The numbers of the script that the program meets: an integral double, as \<^verbatim>\<open>parseInt\<close>
  and \<^verbatim>\<open>Math.round(parseFloat(..))\<close> return it, an infinity or NaN; and
  \<^verbatim>\<open>null\<close>, which a top log read back from its file holds where a number that was
  not finite had been saved. In arithmetic and comparisons \<^verbatim>\<open>null\<close> counts as 0.
\<close>

datatype number = Num int | Infinity | NegInfinity | NaN | Null

text \<open>
  The double nearest to the fraction \<open>p / q\<close> (with \<open>p \<ge> 0\<close> and \<open>q > 0\<close>), ties going to the even
  mantissa: the mantissa \<open>m\<close> and the exponent \<open>e\<close> of the value \<open>m * 2 ^ e\<close>, with
  \<open>e\<close> no less than that of the subnormal numbers; \<open>None\<close> when the fraction rounds
  beyond the largest double.
\<close>

function bitLength :: "int \<Rightarrow> nat" where
  "bitLength n = (if n \<le> 0 then 0 else Suc (bitLength (n div 2)))"
  by pat_completeness auto
termination
  by (relation "measure nat") auto

declare bitLength.simps [simp del]

definition roundHalfEven :: "int \<Rightarrow> int \<Rightarrow> int" where
  "roundHalfEven p q =
     (let d = p div q; r = p mod q
      in if 2 * r < q then d else if q < 2 * r then d + 1 else if even d then d else d + 1)"

definition toDouble :: "int \<Rightarrow> int \<Rightarrow> (int \<times> int) option" where
  "toDouble p q =
     (if p = 0 then Some (0, 0)
      else
        (let k = int (bitLength p) - int (bitLength q);
             fl = (if (if 0 \<le> k then q * 2 ^ nat k \<le> p else q \<le> p * 2 ^ nat (- k)) then k
                   else k - 1);
             e = max (fl - 52) (- 1074);
             m = (if 0 \<le> e then roundHalfEven p (q * 2 ^ nat e)
                  else roundHalfEven (p * 2 ^ nat (- e)) q)
         in if 971 < e \<or> (e = 971 \<and> 2 ^ 53 \<le> m) then None else Some (m, e)))"

text \<open>The number of the script for a whole number: the nearest double, or an infinity.\<close>

definition numberOf :: "int \<Rightarrow> number" where
  "numberOf i =
     (case toDouble \<bar>i\<bar> 1 of
        None \<Rightarrow> if i < 0 then NegInfinity else Infinity
      | Some (m, e) \<Rightarrow> if 0 \<le> e then Num (sgn i * (m * 2 ^ nat e)) else Num i)"

type_synonym ID = string

text \<open>
  \<^verbatim>\<open>toID\<close> on a string: lower case, then every character outside \<open>a-z0-9\<close> dropped.
  A string is its UTF-8 bytes here, so a character beyond ASCII is dropped as a whole, but
  for the two whose lower case has an ASCII letter: the Kelvin sign (bytes E2 84 AA), which
  becomes \<open>k\<close>, and the capital I with a dot above (bytes C4 B0), which becomes \<open>i\<close>
  and a combining dot, dropped in its turn.
\<close>

definition lowerChar :: "char \<Rightarrow> char" where
  "lowerChar c =
     (let n = (of_char c :: nat) in if 65 \<le> n \<and> n \<le> 90 then char_of (n + 32) else c)"

fun toLowerCase :: "string \<Rightarrow> string" where
  "toLowerCase [] = []"
| "toLowerCase (c # cs) =
     (let n = (of_char c :: nat); ns = map of_char (take 2 cs) :: nat list
      in if n = 226 \<and> ns = [132, 170] then CHR ''k'' # toLowerCase (drop 2 cs)
         else if n = 196 \<and> take 1 ns = [176] then CHR ''i'' # toLowerCase (drop 1 cs)
         else lowerChar c # toLowerCase cs)"

definition alnum :: "char \<Rightarrow> bool" where
  "alnum c = (let n = (of_char c :: nat) in (97 \<le> n \<and> n \<le> 122) \<or> (48 \<le> n \<and> n \<le> 57))"

definition toID :: "string \<Rightarrow> ID" where
  "toID text = filter alnum (toLowerCase text)"

record LeaderboardEntry =
  name :: string
  rank :: "nat option"
  elo :: number
  win :: number
  lose :: number

section \<open>The diff of two leaderboards\<close>

text \<open>
  A diff is the tuple \<^verbatim>\<open>[name, elo, oldrank, newrank]\<close>. A rank is a position plus
  one, or \<^verbatim>\<open>Infinity\<close>: an \<^typ>\<open>enat\<close>. The result of \<^verbatim>\<open>getDiffs\<close> is a
  \<^verbatim>\<open>Map\<close>, kept here in insertion order: \<^const>\<open>AList.update\<close> overwrites a key
  in place and appends a new one, as \<^verbatim>\<open>Map.set\<close> does.
\<close>

type_synonym diff = "string \<times> number \<times> enat \<times> enat"

type_synonym diffs = "(ID \<times> diff) list"

text \<open>\<^verbatim>\<open>findIndex\<close>: the index of the first element that satisfies \<open>P\<close>, or \<open>-1\<close>.\<close>

definition findIndex :: "('a \<Rightarrow> bool) \<Rightarrow> 'a list \<Rightarrow> int" where
  "findIndex P xs =
     (let k = length (takeWhile (\<lambda>x. \<not> P x) xs) in if k < length xs then int k else - 1)"

text \<open>
  \<^verbatim>\<open>xs.slice(0, num)\<close>: \<open>num\<close> is truncated towards zero; a negative end counts
  from the end of the list.
\<close>

definition toInteger :: "real \<Rightarrow> int" where
  "toInteger r = (if 0 \<le> r then \<lfloor>r\<rfloor> else \<lceil>r\<rceil>)"

definition slice0 :: "'a list \<Rightarrow> real \<Rightarrow> 'a list" where
  "slice0 xs num =
     (let relEnd = toInteger num
      in if relEnd < 0 then take (nat (int (length xs) + relEnd)) xs else take (nat relEnd) xs)"

text \<open>\<^verbatim>\<open>num ? xs.slice(0, num) : xs\<close>, where \<open>None\<close> is \<^verbatim>\<open>undefined\<close>.\<close>

definition firstN :: "real option \<Rightarrow> 'a list \<Rightarrow> 'a list" where
  "firstN num xs = (case num of None \<Rightarrow> xs | Some n \<Rightarrow> if n = 0 then xs else slice0 xs n)"

text \<open>The body of the first loop, for the player at index \<open>i\<close> of \<^verbatim>\<open>lastN\<close>.\<close>

definition lastStep :: "LeaderboardEntry list \<Rightarrow> nat \<Rightarrow> LeaderboardEntry \<Rightarrow> diffs \<Rightarrow> diffs" where
  "lastStep current i player ds =
     (let id = toID (name player);
          oldrank = enat (i + 1);
          k = findIndex (\<lambda>e. toID (name e) = id) current + 1;
          (newrank, elo') =
            (if k = 0 then (\<infinity>, Num 0) else (enat (nat k), elo (current ! nat (k - 1))))
      in if oldrank \<noteq> newrank then AList.update id (name player, elo', oldrank, newrank) ds
         else ds)"

fun lastLoop :: "LeaderboardEntry list \<Rightarrow> nat \<Rightarrow> LeaderboardEntry list \<Rightarrow> diffs \<Rightarrow> diffs" where
  "lastLoop current i [] ds = ds"
| "lastLoop current i (player # rest) ds =
     lastLoop current (i + 1) rest (lastStep current i player ds)"

text \<open>The body of the second loop, for the player at index \<open>i\<close> of \<^verbatim>\<open>currentN\<close>.\<close>

definition currentStep :: "LeaderboardEntry list \<Rightarrow> nat \<Rightarrow> LeaderboardEntry \<Rightarrow> diffs \<Rightarrow> diffs" where
  "currentStep last' i player ds =
     (let id = toID (name player);
          newrank = enat (i + 1);
          k = findIndex (\<lambda>e. toID (name e) = id) last' + 1;
          oldrank = (if k = 0 then \<infinity> else enat (nat k))
      in if oldrank \<noteq> newrank then AList.update id (name player, elo player, oldrank, newrank) ds
         else ds)"

fun currentLoop :: "LeaderboardEntry list \<Rightarrow> nat \<Rightarrow> LeaderboardEntry list \<Rightarrow> diffs \<Rightarrow> diffs" where
  "currentLoop last' i [] ds = ds"
| "currentLoop last' i (player # rest) ds =
     currentLoop last' (i + 1) rest (currentStep last' i player ds)"

definition getDiffs ::
  "LeaderboardEntry list \<Rightarrow> LeaderboardEntry list \<Rightarrow> real option \<Rightarrow> diffs" where
  "getDiffs last' current num =
     (let lastN = firstN num last';
          ds = lastLoop current 0 lastN [];
          currentN = firstN num current
      in currentLoop last' 0 currentN ds)"

text \<open>
  Notions for stating what a diff holds. \<open>rankIn\<close>, \<open>eloIn\<close> are the expressions the
  two loops compute for the rank and the rating of an id in a list: the position of its
  first entry plus one or \<^verbatim>\<open>Infinity\<close>, and that entry's rating or \<open>0\<close>.
\<close>

definition idOf :: "LeaderboardEntry \<Rightarrow> ID" where
  "idOf e = toID (name e)"

definition rankIn :: "ID \<Rightarrow> LeaderboardEntry list \<Rightarrow> enat" where
  "rankIn uid xs =
     (let k = findIndex (\<lambda>e. toID (name e) = uid) xs + 1 in if k = 0 then \<infinity> else enat (nat k))"

definition eloIn :: "ID \<Rightarrow> LeaderboardEntry list \<Rightarrow> number" where
  "eloIn uid xs =
     (let k = findIndex (\<lambda>e. toID (name e) = uid) xs + 1
      in if k = 0 then Num 0 else elo (xs ! nat (k - 1)))"

definition nameIn :: "ID \<Rightarrow> LeaderboardEntry list \<Rightarrow> string" where
  "nameIn uid xs = name (xs ! nat (findIndex (\<lambda>e. toID (name e) = uid) xs))"

text \<open>
  The leaderboards of the example: A, B, C, then B, A, D, with any ratings.
\<close>

definition ex_last :: "number \<Rightarrow> number \<Rightarrow> number \<Rightarrow> LeaderboardEntry list" where
  "ex_last a b c =
     [\<lparr>name = ''A'', rank = Some 1, elo = a, win = Num 0, lose = Num 0\<rparr>,
      \<lparr>name = ''B'', rank = Some 2, elo = b, win = Num 0, lose = Num 0\<rparr>,
      \<lparr>name = ''C'', rank = Some 3, elo = c, win = Num 0, lose = Num 0\<rparr>]"

definition ex_current :: "number \<Rightarrow> number \<Rightarrow> number \<Rightarrow> LeaderboardEntry list" where
  "ex_current b a d =
     [\<lparr>name = ''B'', rank = Some 1, elo = b, win = Num 0, lose = Num 0\<rparr>,
      \<lparr>name = ''A'', rank = Some 2, elo = a, win = Num 0, lose = Num 0\<rparr>,
      \<lparr>name = ''D'', rank = Some 3, elo = d, win = Num 0, lose = Num 0\<rparr>]"

text \<open>Two boards in which A falls from the first place to the fourth.\<close>

definition far_last :: "LeaderboardEntry list" where
  "far_last = ex_last (Num 1500) (Num 1400) (Num 1300) @
     [\<lparr>name = ''D'', rank = Some 4, elo = Num 1200, win = Num 0, lose = Num 0\<rparr>]"

definition far_current :: "LeaderboardEntry list" where
  "far_current =
     [\<lparr>name = ''B'', rank = Some 1, elo = Num 1450, win = Num 0, lose = Num 0\<rparr>,
      \<lparr>name = ''C'', rank = Some 2, elo = Num 1350, win = Num 0, lose = Num 0\<rparr>,
      \<lparr>name = ''D'', rank = Some 3, elo = Num 1250, win = Num 0, lose = Num 0\<rparr>,
      \<lparr>name = ''A'', rank = Some 4, elo = Num 1100, win = Num 0, lose = Num 0\<rparr>]"

section \<open>The top log and its file\<close>

text \<open>
  The type \<^verbatim>\<open>topLog\<close>. \<^verbatim>\<open>logs\<close> is an object keyed by user id, kept here as an
  association list in insertion order (the order in which a script lists keys that look
  like array indices is not modelled; nothing below depends on the order).
\<close>

record stat =
  win :: number
  lose :: number

record userLog =
  username :: string
  currentstat :: stat
  originalstat :: stat
  continuouswin :: number
  starttime :: string
  ticks :: number

record topLog =
  prefix :: string
  currenttop :: string
  logs :: "(string \<times> userLog) list"

text \<open>
  Arithmetic and comparison of the script's numbers. The sum of two whole numbers is
  rounded to a double; \<^verbatim>\<open>null\<close> is read as 0.
\<close>

fun num_neg :: "number \<Rightarrow> number" where
  "num_neg (Num a) = Num (- a)"
| "num_neg Infinity = NegInfinity"
| "num_neg NegInfinity = Infinity"
| "num_neg NaN = NaN"
| "num_neg Null = Num 0"

fun num_add :: "number \<Rightarrow> number \<Rightarrow> number" where
  "num_add (Num a) (Num b) = numberOf (a + b)"
| "num_add NaN y = NaN"
| "num_add x NaN = NaN"
| "num_add Infinity NegInfinity = NaN"
| "num_add NegInfinity Infinity = NaN"
| "num_add Infinity y = Infinity"
| "num_add x Infinity = Infinity"
| "num_add NegInfinity y = NegInfinity"
| "num_add x NegInfinity = NegInfinity"
| "num_add Null Null = Num 0"
| "num_add Null (Num b) = Num b"
| "num_add (Num a) Null = Num a"

definition num_sub :: "number \<Rightarrow> number \<Rightarrow> number" where
  "num_sub x y = num_add x (num_neg y)"

fun num_gt :: "number \<Rightarrow> number \<Rightarrow> bool" where
  "num_gt (Num a) (Num b) = (b < a)"
| "num_gt NaN y = False"
| "num_gt x NaN = False"
| "num_gt x Infinity = False"
| "num_gt NegInfinity y = False"
| "num_gt Infinity y = True"
| "num_gt x NegInfinity = True"
| "num_gt Null Null = False"
| "num_gt Null (Num b) = (b < 0)"
| "num_gt (Num a) Null = (0 < a)"

text \<open>
  A value of JSON. Numbers are whole numbers, as every finite number this program writes
  is one.
\<close>

datatype json =
    JNull
  | JBool bool
  | JNumber int
  | JString string
  | JArray "json list"
  | JObject "(string \<times> json) list"

text \<open>
  \<^verbatim>\<open>JSON.stringify\<close> on a top log, as the value its text denotes: a number that is
  not finite is written as \<^verbatim>\<open>null\<close>.
\<close>

definition numberJSON :: "number \<Rightarrow> json" where
  "numberJSON x = (case x of Num i \<Rightarrow> JNumber i | _ \<Rightarrow> JNull)"

definition statJSON :: "stat \<Rightarrow> json" where
  "statJSON s = JObject [(''win'', numberJSON (stat.win s)), (''lose'', numberJSON (stat.lose s))]"

definition userLogJSON :: "userLog \<Rightarrow> json" where
  "userLogJSON e =
     JObject [(''username'', JString (username e)),
              (''currentstat'', statJSON (currentstat e)),
              (''originalstat'', statJSON (originalstat e)),
              (''continuouswin'', numberJSON (continuouswin e)),
              (''starttime'', JString (starttime e)),
              (''ticks'', numberJSON (ticks e))]"

definition stringify :: "topLog \<Rightarrow> json" where
  "stringify tops =
     JObject [(''prefix'', JString (topLog.prefix tops)),
              (''currenttop'', JString (currenttop tops)),
              (''logs'', JObject (map (\<lambda>(userid, e). (userid, userLogJSON e)) (logs tops)))]"

text \<open>
  Reading a parsed value as a top log. The cast in \<^verbatim>\<open>getTopLog\<close> checks nothing;
  the reading succeeds on the values that have the fields of \<^verbatim>\<open>topLog\<close> with
  strings and numbers where the type says so (other fields are ignored).
\<close>

definition field :: "string \<Rightarrow> json \<Rightarrow> json option" where
  "field k j = (case j of JObject kvs \<Rightarrow> map_of kvs k | _ \<Rightarrow> None)"

definition asString :: "json \<Rightarrow> string option" where
  "asString j = (case j of JString s \<Rightarrow> Some s | _ \<Rightarrow> None)"

definition asNumber :: "json \<Rightarrow> number option" where
  "asNumber j = (case j of JNumber i \<Rightarrow> Some (Num i) | JNull \<Rightarrow> Some Null | _ \<Rightarrow> None)"

definition asStat :: "json \<Rightarrow> stat option" where
  "asStat j =
     do {
       w \<leftarrow> Option.bind (field ''win'' j) asNumber;
       l \<leftarrow> Option.bind (field ''lose'' j) asNumber;
       Some \<lparr>stat.win = w, stat.lose = l\<rparr>
     }"

definition asUserLog :: "json \<Rightarrow> userLog option" where
  "asUserLog j =
     do {
       u \<leftarrow> Option.bind (field ''username'' j) asString;
       c \<leftarrow> Option.bind (field ''currentstat'' j) asStat;
       orig \<leftarrow> Option.bind (field ''originalstat'' j) asStat;
       w \<leftarrow> Option.bind (field ''continuouswin'' j) asNumber;
       s \<leftarrow> Option.bind (field ''starttime'' j) asString;
       t \<leftarrow> Option.bind (field ''ticks'' j) asNumber;
       Some \<lparr>username = u, currentstat = c, originalstat = orig, continuouswin = w,
             starttime = s, ticks = t\<rparr>
     }"

definition asLogs :: "json \<Rightarrow> (string \<times> userLog) list option" where
  "asLogs j =
     (case j of
        JObject kvs \<Rightarrow> those (map (\<lambda>(userid, v). map_option (Pair userid) (asUserLog v)) kvs)
      | _ \<Rightarrow> None)"

definition asTopLog :: "json \<Rightarrow> topLog option" where
  "asTopLog j =
     do {
       p \<leftarrow> Option.bind (field ''prefix'' j) asString;
       c \<leftarrow> Option.bind (field ''currenttop'' j) asString;
       l \<leftarrow> Option.bind (field ''logs'' j) asLogs;
       Some \<lparr>topLog.prefix = p, currenttop = c, logs = l\<rparr>
     }"

text \<open>
  The file \<^verbatim>\<open>tops.json\<close>: missing; there but \<^verbatim>\<open>readFileSync\<close> throws; read
  but not the text of a JSON value, so that \<^verbatim>\<open>JSON.parse\<close> throws; or the text of
  the JSON value given.
\<close>

datatype tops_file = Missing | Unreadable | Malformed | Json json

text \<open>
  What the script throws: the error of \<^verbatim>\<open>readFileSync\<close>, the
  \<^verbatim>\<open>SyntaxError\<close> of \<^verbatim>\<open>JSON.parse\<close>, a \<^verbatim>\<open>TypeError\<close> on reading a
  property of \<^verbatim>\<open>null\<close> or \<^verbatim>\<open>undefined\<close>. \<open>Unmodelled\<close> is no error of the
  script: it marks a run on a stored value that the model does not follow (see
  \<open>checkPrefix\<close> below).
\<close>

datatype error = ReadError | SyntaxError | TypeError | Unmodelled

text \<open>
  What \<^verbatim>\<open>getTopLog\<close> returns: a top log, or a parsed value of another shape that
  the cast lets through.
\<close>

datatype loaded = Log topLog | Other json

section \<open>The client\<close>

text \<open>
  What the client sends to the room through \<^verbatim>\<open>report\<close>, as events that stand for the
  message text: the \<^verbatim>\<open>/laddertour\<close> commands, the leaderboard box (one row per
  entry: the arrow of its diff if it has one, its position, the entry), the notice that the
  ladder could not be read, and the line of rank changes.
\<close>

datatype arrow = Down | Up

type_synonym row = "arrow option \<times> nat \<times> LeaderboardEntry"

text \<open>
  One rank change as \<^verbatim>\<open>trackChanges\<close> prints it: the arrow, the new rank
  (\<^verbatim>\<open>Infinity\<close> prints as \<open>?\<close>), the name, the rating (\<open>None\<close> prints as \<open>?\<close>),
  and whether the new rank is beyond the cutoff (printed in italics).
\<close>

type_synonym change = "arrow \<times> enat \<times> string \<times> number option \<times> bool"

datatype report =
    Laddertour_open ID
  | Laddertour_close ID
  | Laddertour_decay ID
  | Addhtmlbox "row list"
  | Read_failed
  | Changes "change list"

datatype watcher = OpenLadderWatcher | CloseLadderWatcher

text \<open>
  The fields of the client that the functions below read or write. The nested
  \<^verbatim>\<open>this.config\<close> and \<^verbatim>\<open>this.leaderboard\<close> are flattened into fields named by
  their path. A time is a count of milliseconds; a timer is kept as its delay, and the delay
  \<open>None\<close> of a watcher is NaN. \<open>sent\<close> lists the reports made, oldest first, and \<open>timers\<close> the
  watchers armed with \<^verbatim>\<open>setTimeout\<close>.
\<close>

record Client =
  config_cutoff :: "nat option"
  config_open :: string
  config_close :: string
  format :: ID
  prefix :: ID
  deadline :: "int option"
  final :: "int option"
  leaderboard_current :: "LeaderboardEntry list option"
  leaderboard_last :: "LeaderboardEntry list option"
  leaderboard_lookup :: "(ID \<times> LeaderboardEntry) list"
  changed :: bool
  lines :: "nat \<times> nat"
  looping :: bool
  ladderopen :: bool
  sent :: "report list"
  timers :: "(watcher \<times> int option) list"

definition report :: "report \<Rightarrow> Client \<Rightarrow> Client" where
  "report message st = st\<lparr>sent := sent st @ [message]\<rparr>"

section \<open>Tracking changes\<close>

text \<open>
  The test of \<^verbatim>\<open>trackChanges\<close> on one diff and the cutoff \<open>n\<close>:
  \<^verbatim>\<open>(oldrank > n && newrank <= n) || (oldrank <= n && newrank > n)\<close>.
\<close>

definition crossesCutoff :: "nat \<Rightarrow> diff \<Rightarrow> bool" where
  "crossesCutoff n d =
     (case d of (name', elo', oldrank, newrank) \<Rightarrow>
        (enat n < oldrank \<and> newrank \<le> enat n) \<or> (oldrank \<le> enat n \<and> enat n < newrank))"

text \<open>\<^verbatim>\<open>elo || '?'\<close>: the ratings 0, NaN and \<^verbatim>\<open>null\<close> print as \<open>?\<close>.\<close>

definition ratingOf :: "number \<Rightarrow> number option" where
  "ratingOf e = (if e = Num 0 \<or> e = NaN \<or> e = Null then None else Some e)"

definition changeOf :: "nat \<Rightarrow> diff \<Rightarrow> change" where
  "changeOf n d =
     (case d of (name', elo', oldrank, newrank) \<Rightarrow>
        (if oldrank < newrank then Down else Up, newrank, name', ratingOf elo', enat n < newrank))"

text \<open>The loop over the sorted diffs: the flag \<open>changed\<close> and the messages so far.\<close>

fun changesLoop :: "nat \<Rightarrow> bool \<Rightarrow> diff list \<Rightarrow> bool \<times> change list \<Rightarrow> bool \<times> change list" where
  "changesLoop n display [] acc = acc"
| "changesLoop n display (d # rest) (ch, messages) =
     changesLoop n display rest
       (if \<not> crossesCutoff n d then True else ch,
        if display then messages @ [changeOf n d] else messages)"

text \<open>
  \<^verbatim>\<open>trackChanges\<close>. The cutoff is a rank, a whole number; \<open>None\<close> and 0 switch the
  tracking off. The window handed to \<open>getDiffs\<close> is \<open>n * FACTOR\<close> with the factor 1.5.
  The diffs are sorted by new rank; the sort is stable and two ranks \<^verbatim>\<open>Infinity\<close>
  compare as equal.
\<close>

definition FACTOR :: real where
  "FACTOR = 1.5"

definition trackChanges :: "Client \<Rightarrow> LeaderboardEntry list \<Rightarrow> bool \<Rightarrow> Client" where
  "trackChanges st leaderboard display =
     (case leaderboard_current st of
        None \<Rightarrow> st
      | Some current \<Rightarrow>
         (case config_cutoff st of
            None \<Rightarrow> st
          | Some n \<Rightarrow>
             if n = 0 then st
             else
               (let ds = getDiffs current leaderboard (Some (real n * FACTOR))
                in if ds = [] then st
                   else
                     (let sorted = sort_key (\<lambda>(name', elo', oldrank, newrank). newrank) (map snd ds);
                          (ch, messages) = changesLoop n display sorted (changed st, []);
                          st' = st\<lparr>changed := ch\<rparr>
                      in if display then report (Changes messages) st' else st'))))"

text \<open>A client that tracks nothing yet, for the examples.\<close>

definition client0 :: Client where
  "client0 =
     \<lparr>config_cutoff = None, config_open = ''06:00'', config_close = ''22:00'',
      format = ''gen8ou'', prefix = '''', deadline = None, final = None,
      leaderboard_current = None, leaderboard_last = None, leaderboard_lookup = [],
      changed = False, lines = (0, 0), looping = False, ladderopen = True,
      sent = [], timers = []\<rparr>"

text \<open>The board A, B, C with its first two entries swapped, and clients that track it.\<close>

definition swapped_board :: "LeaderboardEntry list" where
  "swapped_board =
     [\<lparr>name = ''B'', rank = Some 1, elo = Num 1500, win = Num 0, lose = Num 0\<rparr>,
      \<lparr>name = ''A'', rank = Some 2, elo = Num 1400, win = Num 0, lose = Num 0\<rparr>,
      \<lparr>name = ''C'', rank = Some 3, elo = Num 1300, win = Num 0, lose = Num 0\<rparr>]"

definition tracking :: "nat \<Rightarrow> Client" where
  "tracking n =
     client0\<lparr>leaderboard_current := Some (ex_last (Num 1500) (Num 1400) (Num 1300)),
             config_cutoff := Some n\<rparr>"

section \<open>Updating the top log\<close>

definition newTopLog :: "Client \<Rightarrow> topLog" where
  "newTopLog st = \<lparr>topLog.prefix = Client.prefix st, currenttop = '''', logs = []\<rparr>"

text \<open>
  \<^verbatim>\<open>getTopLog\<close>: a missing file gives a new log; a file that is there is read and
  parsed, and what \<^verbatim>\<open>readFileSync\<close> or \<^verbatim>\<open>JSON.parse\<close> throws is not caught.
\<close>

definition getTopLog :: "Client \<Rightarrow> tops_file \<Rightarrow> error + loaded" where
  "getTopLog st file =
     (case file of
        Missing \<Rightarrow> Inr (Log (newTopLog st))
      | Unreadable \<Rightarrow> Inl ReadError
      | Malformed \<Rightarrow> Inl SyntaxError
      | Json j \<Rightarrow> Inr (case asTopLog j of Some tops \<Rightarrow> Log tops | None \<Rightarrow> Other j))"

definition saveTopLog :: "topLog \<Rightarrow> tops_file" where
  "saveTopLog tops = Json (stringify tops)"

text \<open>
  \<^verbatim>\<open>formatDateTime\<close> reads a date through its local calendar fields only, so a date is
  the record of these fields here (\<^verbatim>\<open>getMonth\<close> counts from 0, and is printed as it
  is).
\<close>

record Date =
  getFullYear :: int
  getMonth :: nat
  getDate :: nat
  getHours :: nat
  getMinutes :: nat

function showNat :: "nat \<Rightarrow> string" where
  "showNat n =
     (if n < 10 then [char_of (48 + n)] else showNat (n div 10) @ [char_of (48 + n mod 10)])"
  by pat_completeness auto
termination
  by (relation "measure (\<lambda>n. n)") auto

declare showNat.simps [simp del]

definition showInt :: "int \<Rightarrow> string" where
  "showInt i = (if i < 0 then ''-'' @ showNat (nat (- i)) else showNat (nat i))"

text \<open>\<^verbatim>\<open>('0' + s).slice(-2)\<close>\<close>

definition zfill :: "string \<Rightarrow> string" where
  "zfill s = (let t = ''0'' @ s in drop (length t - 2) t)"

definition formatDateTime :: "Date \<Rightarrow> string" where
  "formatDateTime date =
     (let dateStr = showInt (getFullYear date) @ ''-'' @ zfill (showNat (getMonth date)) @ ''-''
                    @ zfill (showNat (getDate date));
          timeStr = zfill (showNat (getHours date)) @ '':'' @ zfill (showNat (getMinutes date))
      in dateStr @ '' '' @ timeStr)"

text \<open>
  The branch of \<^verbatim>\<open>updateTopLog\<close> for the user who is already on top. Reading a field
  of \<^verbatim>\<open>tops.logs[userid]\<close> throws a \<^verbatim>\<open>TypeError\<close> when the log has no entry
  for the user.
\<close>

definition sameTop ::
  "Client \<Rightarrow> topLog \<Rightarrow> ID \<Rightarrow> number \<Rightarrow> number \<Rightarrow> error + topLog" where
  "sameTop st tops userid win' lose' =
     (case map_of (logs tops) userid of
        None \<Rightarrow> Inl TypeError
      | Some e \<Rightarrow>
         (let e1 = (if ladderopen st then e\<lparr>ticks := num_add (ticks e) (Num 1)\<rparr> else e);
              e2 = (if num_gt lose' (stat.lose (currentstat e1))
                    then e1\<lparr>continuouswin := Num 0\<rparr>
                    else e1\<lparr>continuouswin :=
                              num_add (continuouswin e1)
                                (num_sub win' (stat.win (currentstat e1)))\<rparr>);
              e3 = e2\<lparr>currentstat := \<lparr>stat.win = win', stat.lose = lose'\<rparr>\<rparr>
          in Inr (tops\<lparr>logs := AList.update userid e3 (logs tops)\<rparr>)))"

text \<open>The other branch: the user becomes the top, with a new entry under the user's id.\<close>

definition newTop ::
  "topLog \<Rightarrow> ID \<Rightarrow> string \<Rightarrow> number \<Rightarrow> number \<Rightarrow> Date \<Rightarrow> topLog" where
  "newTop tops userid username' win' lose' date =
     tops\<lparr>currenttop := userid,
          logs := AList.update userid
                    \<lparr>username = username',
                     currentstat = \<lparr>stat.win = win', stat.lose = lose'\<rparr>,
                     originalstat = \<lparr>stat.win = win', stat.lose = lose'\<rparr>,
                     continuouswin = Num 0,
                     starttime = formatDateTime date,
                     ticks = Num 1\<rparr>
                    (logs tops)\<rparr>"

text \<open>
  \<^verbatim>\<open>if (tops.prefix !== this.prefix) tops = this.newTopLog()\<close>, on what was loaded.
  On \<^verbatim>\<open>null\<close> the read of \<^verbatim>\<open>tops.prefix\<close> throws; a value of another shape
  without the client's prefix is replaced by a new log like any log of another prefix.
  There remains a value that has the client's prefix and not the fields of a top log. No
  file that this program wrote holds one (what \<open>saveTopLog\<close> writes is read back as a
  top log, with \<^verbatim>\<open>null\<close> for the numbers that were not finite); what the script
  does with one (it carries on, and may well write the file again) depends on the value,
  and the model stops there: \<open>Unmodelled\<close> is not an error of the script but the mark
  of a stored value beyond the model.
\<close>

definition checkPrefix :: "Client \<Rightarrow> loaded \<Rightarrow> error + topLog" where
  "checkPrefix st tops =
     (case tops of
        Log t \<Rightarrow> Inr (if topLog.prefix t \<noteq> Client.prefix st then newTopLog st else t)
      | Other j \<Rightarrow>
         if j = JNull then Inl TypeError
         else if field ''prefix'' j \<noteq> Some (JString (Client.prefix st)) then Inr (newTopLog st)
         else Inl Unmodelled)"

text \<open>
  \<^verbatim>\<open>updateTopLog\<close>: the result is the file \<^verbatim>\<open>tops.json\<close> after the call, or
  the error thrown (\<open>ReadError\<close>, \<open>SyntaxError\<close>, \<open>TypeError\<close>), in which case
  nothing was written.
\<close>

definition updateTopLog ::
  "Client \<Rightarrow> tops_file \<Rightarrow> string \<Rightarrow> number \<Rightarrow> number \<Rightarrow> Date \<Rightarrow> error + tops_file" where
  "updateTopLog st file username' win' lose' date =
     (case getTopLog st file of
        Inl err \<Rightarrow> Inl err
      | Inr loaded \<Rightarrow>
         (case checkPrefix st loaded of
            Inl err \<Rightarrow> Inl err
          | Inr tops \<Rightarrow>
             (let userid = toID username'
              in if userid = currenttop tops
                 then (case sameTop st tops userid win' lose' of
                         Inl err \<Rightarrow> Inl err
                       | Inr tops' \<Rightarrow> Inr (saveTopLog tops'))
                 else Inr (saveTopLog (newTop tops userid username' win' lose' date)))))"

text \<open>
  A top log as it is read back after being saved: the numbers that were not finite are
  \<^verbatim>\<open>null\<close>.
\<close>

definition reloadNumber :: "number \<Rightarrow> number" where
  "reloadNumber x = (case x of Num i \<Rightarrow> Num i | _ \<Rightarrow> Null)"

definition reloadStat :: "stat \<Rightarrow> stat" where
  "reloadStat s = \<lparr>stat.win = reloadNumber (stat.win s), stat.lose = reloadNumber (stat.lose s)\<rparr>"

definition reloadUserLog :: "userLog \<Rightarrow> userLog" where
  "reloadUserLog e =
     e\<lparr>currentstat := reloadStat (currentstat e), originalstat := reloadStat (originalstat e),
       continuouswin := reloadNumber (continuouswin e), ticks := reloadNumber (ticks e)\<rparr>"

definition reloadTopLog :: "topLog \<Rightarrow> topLog" where
  "reloadTopLog tops = tops\<lparr>logs := map (\<lambda>(userid, e). (userid, reloadUserLog e)) (logs tops)\<rparr>"

text \<open>The numbers that \<^verbatim>\<open>JSON.stringify\<close> writes as they are.\<close>

definition isFinite :: "number \<Rightarrow> bool" where
  "isFinite x = (case x of Num i \<Rightarrow> True | _ \<Rightarrow> False)"

definition finiteStat :: "stat \<Rightarrow> bool" where
  "finiteStat s = (isFinite (stat.win s) \<and> isFinite (stat.lose s))"

definition finiteUserLog :: "userLog \<Rightarrow> bool" where
  "finiteUserLog e =
     (finiteStat (currentstat e) \<and> finiteStat (originalstat e) \<and> isFinite (continuouswin e)
      \<and> isFinite (ticks e))"

definition finiteTopLog :: "topLog \<Rightarrow> bool" where
  "finiteTopLog tops = list_all (\<lambda>(userid, e). finiteUserLog e) (logs tops)"

text \<open>
  Example logs: Alice on top after Bob, under the prefix given; a date; and the log of a
  user whose counts could not be parsed.
\<close>

definition alice_log :: userLog where
  "alice_log =
     \<lparr>username = ''Alice'',
      currentstat = \<lparr>stat.win = Num 7, stat.lose = Num 1\<rparr>,
      originalstat = \<lparr>stat.win = Num 3, stat.lose = Num 1\<rparr>,
      continuouswin = Num 4, starttime = ''2024-00-05 13:07'', ticks = Num 5\<rparr>"

definition bob_log :: userLog where
  "bob_log =
     \<lparr>username = ''Bob'',
      currentstat = \<lparr>stat.win = Num 2, stat.lose = Num 2\<rparr>,
      originalstat = \<lparr>stat.win = Num 2, stat.lose = Num 0\<rparr>,
      continuouswin = Num 0, starttime = ''2024-00-04 09:30'', ticks = Num 12\<rparr>"

definition tops_of :: "string \<Rightarrow> string \<Rightarrow> topLog" where
  "tops_of p uid =
     \<lparr>topLog.prefix = p, currenttop = uid, logs = [(''bob'', bob_log), (''alice'', alice_log)]\<rparr>"

definition noon :: Date where
  "noon = \<lparr>getFullYear = 2024, getMonth = 0, getDate = 6, getHours = 12, getMinutes = 0\<rparr>"

definition nan_tops :: topLog where
  "nan_tops =
     \<lparr>topLog.prefix = '''', currenttop = ''username'',
      logs = [(''username'',
               \<lparr>username = ''Username'',
                currentstat = \<lparr>stat.win = NaN, stat.lose = NaN\<rparr>,
                originalstat = \<lparr>stat.win = NaN, stat.lose = NaN\<rparr>,
                continuouswin = Num 0, starttime = ''2024-00-06 12:00'', ticks = Num 1\<rparr>)]\<rparr>"

section \<open>Reading numbers\<close>

text \<open>
  \<^verbatim>\<open>s.split(c)\<close> for a separator of one character: the pieces between the
  separators, at least one.
\<close>

fun splitOn :: "char \<Rightarrow> string \<Rightarrow> string list" where
  "splitOn c [] = [[]]"
| "splitOn c (x # xs) =
     (if x = c then [] # splitOn c xs
      else (case splitOn c xs of w # ws \<Rightarrow> (x # w) # ws | [] \<Rightarrow> [[x]]))"

text \<open>
  The white space that \<^verbatim>\<open>parseInt\<close> and \<^verbatim>\<open>parseFloat\<close> skip, as UTF-8 bytes:
  the ASCII characters 9 to 13 and 32, and the no-break space, the Ogham space mark, the
  spaces U+2000 to U+200A, the line and paragraph separators, the narrow no-break space,
  the medium mathematical space, the ideographic space and the byte order mark.
\<close>

definition spaceSeqs :: "nat list list" where
  "spaceSeqs =
     [[9], [10], [11], [12], [13], [32], [194, 160], [225, 154, 128]]
     @ map (\<lambda>b. [226, 128, b]) [128 ..< 139]
     @ [[226, 128, 168], [226, 128, 169], [226, 128, 175], [226, 129, 159], [227, 128, 128],
        [239, 187, 191]]"

definition spaceLength :: "string \<Rightarrow> nat" where
  "spaceLength s =
     (case find (\<lambda>sq. take (length sq) (map of_char s) = sq) spaceSeqs of
        Some sq \<Rightarrow> min (length sq) (length s)
      | None \<Rightarrow> 0)"

function skipSpace :: "string \<Rightarrow> string" where
  "skipSpace s = (if spaceLength s = 0 then s else skipSpace (drop (spaceLength s) s))"
  by pat_completeness auto
termination
  by (relation "measure length") (auto simp: spaceLength_def split: option.splits)

declare skipSpace.simps [simp del]

text \<open>
  \<^verbatim>\<open>parseInt\<close> without a radix: white space is skipped, then a sign, then \<open>0x\<close>
  switches to base 16, then the longest run of digits is read and its value rounded to a
  double; no digit gives NaN. \<open>None\<close> is \<^verbatim>\<open>undefined\<close>, which gives NaN as well.
\<close>

definition digitOf :: "nat \<Rightarrow> char \<Rightarrow> nat option" where
  "digitOf radix c =
     (let n = (of_char c :: nat);
          v = (if 48 \<le> n \<and> n \<le> 57 then Some (n - 48)
               else if 97 \<le> n \<and> n \<le> 122 then Some (n - 87)
               else if 65 \<le> n \<and> n \<le> 90 then Some (n - 55)
               else None)
      in case v of None \<Rightarrow> None | Some d \<Rightarrow> if d < radix then Some d else None)"

definition digitsValue :: "nat \<Rightarrow> string \<Rightarrow> int" where
  "digitsValue radix ds =
     foldl (\<lambda>acc c. acc * int radix + (case digitOf radix c of Some d \<Rightarrow> int d | None \<Rightarrow> 0))
       0 ds"

definition signOf :: "string \<Rightarrow> int \<times> string" where
  "signOf s =
     (case s of
        c # r \<Rightarrow> if c = CHR ''-'' then (- 1, r) else if c = CHR ''+'' then (1, r) else (1, s)
      | [] \<Rightarrow> (1, s))"

definition parseInt :: "string option \<Rightarrow> number" where
  "parseInt text =
     (case text of
        None \<Rightarrow> NaN
      | Some s \<Rightarrow>
         (let (sign, s2) = signOf (skipSpace s);
              (radix, s3) = (if take 2 s2 = ''0x'' \<or> take 2 s2 = ''0X'' then (16, drop 2 s2)
                             else (10, s2));
              ds = takeWhile (\<lambda>c. digitOf radix c \<noteq> None) s3
          in if ds = [] then NaN else numberOf (sign * digitsValue radix ds)))"

text \<open>
  \<^verbatim>\<open>Math.round(parseFloat(s))\<close>: white space is skipped, then the longest decimal
  literal is read (a sign, \<open>Infinity\<close> or digits with an optional fraction and
  exponent); its value \<open>p / q\<close> is rounded to a double, and the double to the nearest
  whole number, a half going up.
\<close>

definition isDigit :: "char \<Rightarrow> bool" where
  "isDigit c = (digitOf 10 c \<noteq> None)"

definition exponentOf :: "string \<Rightarrow> int" where
  "exponentOf s =
     (case s of
        c # r \<Rightarrow>
          if c = CHR ''e'' \<or> c = CHR ''E''
          then (let (sign, r2) = signOf r; ds = takeWhile isDigit r2
                in if ds = [] then 0 else sign * digitsValue 10 ds)
          else 0
      | [] \<Rightarrow> 0)"

text \<open>\<^verbatim>\<open>Math.round\<close> of the fraction \<open>p / q\<close> with \<open>q > 0\<close>: \<open>floor (p / q + 1 / 2)\<close>.\<close>

definition roundHalfUp :: "int \<Rightarrow> int \<Rightarrow> int" where
  "roundHalfUp p q = (2 * p + q) div (2 * q)"

definition roundParseFloat :: "string \<Rightarrow> number" where
  "roundParseFloat s =
     (let (sign, s2) = signOf (skipSpace s)
      in if take 8 s2 = ''Infinity'' then (if sign < 0 then NegInfinity else Infinity)
         else
           (let ip = takeWhile isDigit s2;
                r1 = dropWhile isDigit s2;
                fp = (case r1 of c # r \<Rightarrow> if c = CHR ''.'' then takeWhile isDigit r else []
                                | [] \<Rightarrow> []);
                r2 = (case r1 of c # r \<Rightarrow> if c = CHR ''.'' then dropWhile isDigit r else r1
                                | [] \<Rightarrow> [])
            in if ip = [] \<and> fp = [] then NaN
               else
                 (let ex = exponentOf r2;
                      p = digitsValue 10 (ip @ fp) * 10 ^ nat ex;
                      q = 10 ^ length fp * 10 ^ nat (- ex)
                  in case toDouble p q of
                       None \<Rightarrow> if sign < 0 then NegInfinity else Infinity
                     | Some (m, e) \<Rightarrow>
                         Num (if 0 \<le> e then sign * (m * 2 ^ nat e)
                              else roundHalfUp (sign * m) (2 ^ nat (- e))))))"

section \<open>The daily schedule\<close>

text \<open>
  A time is a count of milliseconds of local civil time, in a zone whose clock is never
  changed: the day is \<open>t div msPerDay\<close> and the time of day \<open>t mod msPerDay\<close>. The
  setters of \<^verbatim>\<open>Date\<close> replace one field and keep the smaller ones; a value out of the
  field's range carries into the larger fields.
\<close>

definition msPerSecond :: int where
  "msPerSecond = 1000"

definition msPerMinute :: int where
  "msPerMinute = 60000"

definition msPerHour :: int where
  "msPerHour = 3600000"

definition msPerDay :: int where
  "msPerDay = 86400000"

definition setHours :: "int \<Rightarrow> int \<Rightarrow> int" where
  "setHours h t = (t div msPerDay) * msPerDay + h * msPerHour + t mod msPerHour"

definition setMinutes :: "int \<Rightarrow> int \<Rightarrow> int" where
  "setMinutes m t = (t div msPerHour) * msPerHour + m * msPerMinute + t mod msPerMinute"

definition setSeconds :: "int \<Rightarrow> int \<Rightarrow> int" where
  "setSeconds s t = (t div msPerMinute) * msPerMinute + s * msPerSecond + t mod msPerSecond"

text \<open>The two numbers read from a time of day \<^verbatim>\<open>HH:MM\<close> of the configuration.\<close>

definition hoursMinutes :: "string \<Rightarrow> number \<times> number" where
  "hoursMinutes text =
     (let parts = splitOn CHR '':'' text;
          hours = (if 0 < length parts then Some (parts ! 0) else None);
          minutes = (if 1 < length parts then Some (parts ! 1) else None)
      in (parseInt hours, parseInt minutes))"

text \<open>
  \<^verbatim>\<open>getNextOpenTime\<close> and \<^verbatim>\<open>getNextCloseTime\<close>, given the clock (both
  \<^verbatim>\<open>new Date()\<close> of a call fall in the same millisecond). The result \<open>None\<close> is
  the invalid date that a NaN field gives.
\<close>

definition getNextOpenTime :: "Client \<Rightarrow> int \<Rightarrow> int option" where
  "getNextOpenTime st now =
     (case hoursMinutes (config_open st) of
        (Num hours, Num minutes) \<Rightarrow>
          (let openTime = setSeconds 0 (setMinutes minutes (setHours hours now))
           in Some (if now > openTime then openTime + msPerDay else openTime))
      | _ \<Rightarrow> None)"

definition getNextCloseTime :: "Client \<Rightarrow> int \<Rightarrow> int option" where
  "getNextCloseTime st now =
     (case hoursMinutes (config_close st) of
        (Num hours, Num minutes) \<Rightarrow>
          (let closeTime = setSeconds 0 (setMinutes minutes (setHours hours now))
           in Some (if now > closeTime then closeTime + msPerDay else closeTime))
      | _ \<Rightarrow> None)"

text \<open>The delay of a timer set for half a second before a time; NaN for an invalid time.\<close>

definition delayUntil :: "int option \<Rightarrow> int \<Rightarrow> int option" where
  "delayUntil t now = map_option (\<lambda>x. x - now - 500) t"

definition openLadder :: "Client \<Rightarrow> int \<Rightarrow> Client" where
  "openLadder st now =
     (let st1 = report (Laddertour_open (format st)) (st\<lparr>ladderopen := True\<rparr>)
      in if (case deadline st1 of Some d \<Rightarrow> now \<ge> d | None \<Rightarrow> False)
         then st1\<lparr>looping := False\<rparr>
         else st1\<lparr>timers := timers st1
                    @ [(CloseLadderWatcher, delayUntil (getNextCloseTime st1 now) now)]\<rparr>)"

definition closeLadder :: "Client \<Rightarrow> int \<Rightarrow> bool \<Rightarrow> Client" where
  "closeLadder st now decay =
     (let st1 = report (Laddertour_close (format st)) (st\<lparr>ladderopen := False\<rparr>);
          st2 = st1\<lparr>timers := timers st1
                    @ [(OpenLadderWatcher, delayUntil (getNextOpenTime st1 now) now)]\<rparr>
      in if decay then report (Laddertour_decay (format st)) st2 else st2)"

text \<open>\<^verbatim>\<open>a < b\<close> on two times, false when either is NaN.\<close>

definition timeLess :: "int option \<Rightarrow> int option \<Rightarrow> bool" where
  "timeLess a b = (case (a, b) of (Some x, Some y) \<Rightarrow> x < y | _ \<Rightarrow> False)"

text \<open>
  \<^verbatim>\<open>setDeadline\<close>, given the clock and the time value of \<^verbatim>\<open>new Date(argument)\<close>,
  which is \<open>None\<close> for a text that is not a date.
\<close>

definition setDeadline :: "Client \<Rightarrow> int \<Rightarrow> int option \<Rightarrow> Client" where
  "setDeadline st now date =
     (case date of
        None \<Rightarrow> st
      | Some d \<Rightarrow>
         if d = 0 then st
         else
           (let st1 = st\<lparr>deadline := Some d, final := Some (d - now - 500)\<rparr>
            in if \<not> looping st1
               then (let st2 = (if timeLess (getNextOpenTime st1 now) (getNextCloseTime st1 now)
                                then closeLadder st1 now False
                                else openLadder st1 now)
                     in st2\<lparr>looping := True\<rparr>)
               else st1))"

section \<open>Reading the leaderboard\<close>

text \<open>\<^verbatim>\<open>userid.startsWith(prefix)\<close>\<close>

definition startsWith :: "string \<Rightarrow> string \<Rightarrow> bool" where
  "startsWith s p = (take (length p) s = p)"

text \<open>
  The loop of \<^verbatim>\<open>getLeaderboard\<close> over the rows that have four fields or more. The
  entry stored in the lookup is the object that is pushed on the leaderboard, so the rank
  given to it afterwards shows in both; the model gives the rank first.
\<close>

fun rowsLoop ::
  "ID \<Rightarrow> string list list \<Rightarrow> (ID \<times> LeaderboardEntry) list \<times> LeaderboardEntry list
     \<Rightarrow> (ID \<times> LeaderboardEntry) list \<times> LeaderboardEntry list" where
  "rowsLoop p [] acc = acc"
| "rowsLoop p (data # rest) (lookup, leaderboard) =
     (let entry = \<lparr>name = data ! 1, rank = None, elo = roundParseFloat (data ! 0),
                   win = parseInt (Some (data ! 2)), lose = parseInt (Some (data ! 3))\<rparr>;
          userid = toID (data ! 1)
      in if \<not> startsWith userid p
         then rowsLoop p rest (AList.update userid entry lookup, leaderboard)
         else (let entry' = entry\<lparr>rank := Some (length leaderboard + 1)\<rparr>
               in rowsLoop p rest (AList.update userid entry' lookup, leaderboard @ [entry'])))"

text \<open>
  \<^verbatim>\<open>styleLeaderboard\<close>, as the rows of the table: each entry with its position and
  the arrow of its diff against the last leaderboard shown, when there is one and the table
  is not the final one. The colours and links of the markup are left out.
\<close>

definition styleLeaderboard :: "Client \<Rightarrow> LeaderboardEntry list \<Rightarrow> int option \<Rightarrow> row list" where
  "styleLeaderboard st leaderboard final' =
     (let ds = (case leaderboard_last st of
                  Some last' \<Rightarrow>
                    if final' = None \<or> final' = Some 0 then getDiffs last' leaderboard None
                    else []
                | None \<Rightarrow> [])
      in map (\<lambda>(i, p).
                (case map_of ds (toID (name p)) of
                   Some (name', elo', oldrank, newrank) \<Rightarrow>
                     Some (if oldrank < newrank then Down else Up)
                 | None \<Rightarrow> None,
                 i + 1, p))
             (List.enumerate 0 leaderboard))"

text \<open>
  \<^verbatim>\<open>getLeaderboard\<close>, given the ladder file: \<open>None\<close> when \<^verbatim>\<open>readFileSync\<close>
  throws, else its text. The result is the leaderboard returned and the client after the
  call.
\<close>

definition getLeaderboard ::
  "Client \<Rightarrow> string option \<Rightarrow> bool \<Rightarrow> LeaderboardEntry list \<times> Client" where
  "getLeaderboard st file display =
     (case file of
        None \<Rightarrow> ([], if display then report Read_failed st else st)
      | Some text \<Rightarrow>
         (let rows = filter (\<lambda>row. length row \<ge> 4)
                       (map (splitOn (char_of (9 :: nat))) (splitOn (char_of (10 :: nat)) text));
              (lookup, leaderboard) = rowsLoop (Client.prefix st) rows ([], []);
              st1 = st\<lparr>leaderboard_lookup := lookup\<rparr>
          in if display
             then (leaderboard,
                   (report (Addhtmlbox (styleLeaderboard st1 leaderboard None)) st1)
                     \<lparr>leaderboard_last := Some leaderboard, changed := False,
                      lines := (0, 0)\<rparr>)
             else (leaderboard, st1)))"

text \<open>The text of a small ladder file, with its header line.\<close>

definition ladder_text :: string where
  "ladder_text =
     ''Elo'' @ [char_of (9 :: nat)] @ ''Username'' @ [char_of (9 :: nat)] @ ''W''
       @ [char_of (9 :: nat)] @ ''L'' @ [char_of (10 :: nat)]
     @ ''1500.6'' @ [char_of (9 :: nat)] @ ''Alice'' @ [char_of (9 :: nat)] @ ''7''
       @ [char_of (9 :: nat)] @ ''1'' @ [char_of (10 :: nat)]
     @ ''1400'' @ [char_of (9 :: nat)] @ ''Bob'' @ [char_of (9 :: nat)] @ ''2''
       @ [char_of (9 :: nat)] @ ''2'' @ [char_of (10 :: nat)]"

section \<open>Properties of the numbers\<close>

text \<open>A whole number below \<open>2 ^ 53\<close> in absolute value is a double: rounding keeps it.\<close>

lemma bitLength_bounds: "0 < n \<Longrightarrow> 2 ^ (bitLength n - 1) \<le> n \<and> n < 2 ^ bitLength n"
proof (induction n rule: bitLength.induct)
  case (1 n)
  show ?case
  proof (cases "n div 2 \<le> 0")
    case True
    with "1.prems" have "n = 1" by presburger
    then show ?thesis by (simp add: bitLength.simps[of 1] bitLength.simps[of 0])
  next
    case False
    then have pos: "0 < n div 2" by simp
    from "1.IH" "1.prems" pos
    have ih: "2 ^ (bitLength (n div 2) - 1) \<le> n div 2" "n div 2 < 2 ^ bitLength (n div 2)"
      by simp_all
    have bl: "bitLength n = Suc (bitLength (n div 2))"
      using "1.prems" by (simp add: bitLength.simps[of n])
    have b1: "0 < bitLength (n div 2)"
      using pos by (simp add: bitLength.simps[of "n div 2"])
    then have e: "(2::int) ^ bitLength (n div 2) = 2 * 2 ^ (bitLength (n div 2) - 1)"
      by (cases "bitLength (n div 2)") simp_all
    have lo: "2 * (n div 2) \<le> n" and hi: "n < 2 * (n div 2) + 2" by presburger+
    show ?thesis using ih lo hi e by (simp add: bl)
  qed
qed

lemma bitLength_one: "bitLength 1 = 1"
  by (simp add: bitLength.simps[of 1] bitLength.simps[of 0])

lemma toDouble_exact:
  assumes "0 < p" "p < 2 ^ 53"
  shows "\<exists>m e. toDouble p 1 = Some (m, e) \<and> e \<le> 0 \<and> (e = 0 \<longrightarrow> m = p)"
proof -
  let ?b = "bitLength p"
  from bitLength_bounds[OF assms(1)] have lo: "2 ^ (?b - 1) \<le> p" and hi: "p < 2 ^ ?b" by simp_all
  have bpos: "0 < ?b" using assms(1) by (simp add: bitLength.simps[of p])
  have b53: "?b - 1 < 53"
  proof (rule ccontr)
    assume "\<not> ?b - 1 < 53"
    then have "53 \<le> ?b - 1" by simp
    then have "(2::int) ^ 53 \<le> 2 ^ (?b - 1)" by (rule power_increasing) simp
    with lo assms(2) show False by linarith
  qed
  have k: "int ?b - int (bitLength 1) = int (?b - 1)" using bpos by (simp add: bitLength_one)
  have n1: "nat (int ?b - 1) = ?b - 1" by simp
  have b54: "?b \<le> 53" using b53 bpos by simp
  show ?thesis
    using assms lo b54
    by (simp add: toDouble_def Let_def k n1 roundHalfEven_def max_def bitLength_one)
qed

lemma numberOf_exact: "\<bar>i\<bar> < 2 ^ 53 \<Longrightarrow> numberOf i = Num i"
proof (cases "i = 0")
  case True
  then show ?thesis by (simp add: numberOf_def toDouble_def)
next
  case False
  assume "\<bar>i\<bar> < 2 ^ 53"
  with False toDouble_exact[of "\<bar>i\<bar>"] obtain m e where
    "toDouble \<bar>i\<bar> 1 = Some (m, e)" "e \<le> 0" "e = 0 \<longrightarrow> m = \<bar>i\<bar>" by auto
  then show ?thesis
    by (cases "e = 0") (auto simp: numberOf_def sgn_if)
qed

lemma num_add_exact: "\<bar>a + b\<bar> < 2 ^ 53 \<Longrightarrow> num_add (Num a) (Num b) = Num (a + b)"
  by (simp add: numberOf_exact)

section \<open>Properties of the diff\<close>

lemma takeWhile_not_less:
  "(length (takeWhile (\<lambda>x. \<not> P x) xs) < length xs) = (\<exists>x\<in>set xs. P x)"
  by (induction xs) auto

lemma findIndex_absent: "\<forall>x\<in>set xs. \<not> P x \<Longrightarrow> findIndex P xs = - 1"
  using takeWhile_not_less[of P xs] by (simp add: findIndex_def)

lemma findIndex_present:
  assumes "\<exists>x\<in>set xs. P x"
  shows "0 \<le> findIndex P xs" and "nat (findIndex P xs) < length xs"
    and "P (xs ! nat (findIndex P xs))"
proof -
  have lt: "length (takeWhile (\<lambda>x. \<not> P x) xs) < length xs"
    using assms by (simp add: takeWhile_not_less)
  then show "0 \<le> findIndex P xs" "nat (findIndex P xs) < length xs"
    by (simp_all add: findIndex_def)
  show "P (xs ! nat (findIndex P xs))"
    using lt nth_length_takeWhile[OF lt] by (simp add: findIndex_def)
qed

lemma findIndex_first:
  assumes "i < length xs" "P (xs ! i)" "\<forall>j<i. \<not> P (xs ! j)"
  shows "findIndex P xs = int i"
proof -
  have "takeWhile (\<lambda>x. \<not> P x) xs = take i xs"
    using assms by (intro takeWhile_eq_take_P_nth) auto
  then show ?thesis using assms by (simp add: findIndex_def)
qed

lemma length_takeWhile_take:
  "length (takeWhile Q (take m xs)) = min m (length (takeWhile Q xs))"
  by (induction xs arbitrary: m) (auto simp: take_Cons split: nat.splits)

lemma findIndex_distinct:
  assumes "distinct (map f xs)" "i < length xs"
  shows "findIndex (\<lambda>e. f e = f (xs ! i)) xs = int i"
proof (rule findIndex_first)
  show "i < length xs" by fact
  show "f (xs ! i) = f (xs ! i)" by simp
  show "\<forall>j<i. f (xs ! j) \<noteq> f (xs ! i)"
    using assms by (auto simp: distinct_conv_nth)
qed

lemma lastStep_eq:
  "lastStep current i player ds =
     (if enat (i + 1) \<noteq> rankIn (idOf player) current
      then AList.update (idOf player)
             (name player, eloIn (idOf player) current, enat (i + 1), rankIn (idOf player) current) ds
      else ds)"
  by (simp add: lastStep_def rankIn_def eloIn_def idOf_def Let_def)

lemma currentStep_eq:
  "currentStep last' i player ds =
     (if rankIn (idOf player) last' \<noteq> enat (i + 1)
      then AList.update (idOf player)
             (name player, elo player, rankIn (idOf player) last', enat (i + 1)) ds
      else ds)"
  by (simp add: currentStep_def rankIn_def idOf_def Let_def)

lemma lastLoop_other:
  "uid \<notin> idOf ` set ps \<Longrightarrow> map_of (lastLoop current i ps ds) uid = map_of ds uid"
  by (induction ps arbitrary: i ds) (auto simp: lastStep_eq update_conv')

lemma currentLoop_other:
  "uid \<notin> idOf ` set ps \<Longrightarrow> map_of (currentLoop last' i ps ds) uid = map_of ds uid"
  by (induction ps arbitrary: i ds) (auto simp: currentStep_eq update_conv')

lemma lastLoop_at:
  "distinct (map idOf ps) \<Longrightarrow> k < length ps \<Longrightarrow>
   map_of (lastLoop current i ps ds) (idOf (ps ! k)) =
     (if enat (i + k + 1) \<noteq> rankIn (idOf (ps ! k)) current
      then Some (name (ps ! k), eloIn (idOf (ps ! k)) current, enat (i + k + 1),
                 rankIn (idOf (ps ! k)) current)
      else map_of ds (idOf (ps ! k)))"
proof (induction ps arbitrary: i k ds)
  case Nil
  then show ?case by simp
next
  case (Cons p ps)
  show ?case
  proof (cases k)
    case 0
    have "idOf p \<notin> idOf ` set ps" using Cons.prems by auto
    then show ?thesis using 0
      by (simp add: lastLoop_other lastStep_eq update_conv')
  next
    case (Suc k')
    have "ps ! k' \<in> set ps" using Cons.prems Suc by simp
    then have "idOf (ps ! k') \<in> idOf ` set ps" by (rule imageI)
    then have ne: "idOf (ps ! k') \<noteq> idOf p" using Cons.prems by auto
    have "map_of (lastStep current i p ds) (idOf (ps ! k')) = map_of ds (idOf (ps ! k'))"
      using ne by (simp add: lastStep_eq update_conv')
    then show ?thesis using Cons.IH[of k' "i + 1" "lastStep current i p ds"] Cons.prems Suc
      by simp
  qed
qed

lemma currentLoop_at:
  "distinct (map idOf ps) \<Longrightarrow> k < length ps \<Longrightarrow>
   map_of (currentLoop last' i ps ds) (idOf (ps ! k)) =
     (if rankIn (idOf (ps ! k)) last' \<noteq> enat (i + k + 1)
      then Some (name (ps ! k), elo (ps ! k), rankIn (idOf (ps ! k)) last', enat (i + k + 1))
      else map_of ds (idOf (ps ! k)))"
proof (induction ps arbitrary: i k ds)
  case Nil
  then show ?case by simp
next
  case (Cons p ps)
  show ?case
  proof (cases k)
    case 0
    have "idOf p \<notin> idOf ` set ps" using Cons.prems by auto
    then show ?thesis using 0
      by (simp add: currentLoop_other currentStep_eq update_conv')
  next
    case (Suc k')
    have "ps ! k' \<in> set ps" using Cons.prems Suc by simp
    then have "idOf (ps ! k') \<in> idOf ` set ps" by (rule imageI)
    then have ne: "idOf (ps ! k') \<noteq> idOf p" using Cons.prems by auto
    have "map_of (currentStep last' i p ds) (idOf (ps ! k')) = map_of ds (idOf (ps ! k'))"
      using ne by (simp add: currentStep_eq update_conv')
    then show ?thesis using Cons.IH[of k' "i + 1" "currentStep last' i p ds"] Cons.prems Suc
      by simp
  qed
qed

lemma firstN_take: "\<exists>m. firstN num xs = take m xs"
proof (cases "firstN num xs = xs")
  case True
  then have "firstN num xs = take (length xs) xs" by simp
  then show ?thesis ..
next
  case False
  then show ?thesis
    by (auto simp: firstN_def slice0_def Let_def split: option.splits if_splits)
qed

text \<open>Facts about an entry found at position \<open>k\<close> of a list with distinct ids.\<close>

lemma at_distinct:
  assumes "distinct (map idOf xs)" "k < length xs"
  shows "rankIn (idOf (xs ! k)) xs = enat (k + 1)"
    and "eloIn (idOf (xs ! k)) xs = elo (xs ! k)"
    and "nameIn (idOf (xs ! k)) xs = name (xs ! k)"
proof -
  have "findIndex (\<lambda>e. idOf e = idOf (xs ! k)) xs = int k"
    using assms by (rule findIndex_distinct)
  then have "findIndex (\<lambda>e. toID (name e) = idOf (xs ! k)) xs = int k"
    by (simp add: idOf_def)
  then show "rankIn (idOf (xs ! k)) xs = enat (k + 1)"
    "eloIn (idOf (xs ! k)) xs = elo (xs ! k)" "nameIn (idOf (xs ! k)) xs = name (xs ! k)"
    by (simp_all add: rankIn_def eloIn_def nameIn_def Let_def nat_add_distrib)
qed

lemma in_take_nth:
  assumes "uid \<in> idOf ` set (take m xs)"
  obtains k where "k < length (take m xs)" "k < length xs" "take m xs ! k = xs ! k"
    "idOf (xs ! k) = uid"
proof -
  from assms obtain k where "k < length (take m xs)" "idOf (take m xs ! k) = uid"
    by (auto simp: in_set_conv_nth)
  then show ?thesis using that[of k] by simp
qed

lemma map_of_getDiffs:
  assumes dl: "distinct (map idOf last')" and dc: "distinct (map idOf current)"
  shows "map_of (getDiffs last' current num) uid =
     (if (uid \<in> idOf ` set (firstN num last') \<or> uid \<in> idOf ` set (firstN num current))
         \<and> rankIn uid last' \<noteq> rankIn uid current
      then Some (if uid \<in> idOf ` set (firstN num current) then nameIn uid current
                 else nameIn uid last',
                 eloIn uid current, rankIn uid last', rankIn uid current)
      else None)"
proof -
  obtain a where a: "firstN num last' = take a last'" using firstN_take by blast
  obtain b where b: "firstN num current = take b current" using firstN_take by blast
  let ?ds = "lastLoop current 0 (take a last') []"
  have g: "getDiffs last' current num = currentLoop last' 0 (take b current) ?ds"
    by (simp add: getDiffs_def a b Let_def)
  have dla: "distinct (map idOf (take a last'))" using dl by (simp add: take_map[symmetric])
  have dcb: "distinct (map idOf (take b current))" using dc by (simp add: take_map[symmetric])
  have first: "map_of ?ds uid =
     (if uid \<in> idOf ` set (take a last') \<and> rankIn uid last' \<noteq> rankIn uid current
      then Some (nameIn uid last', eloIn uid current, rankIn uid last', rankIn uid current)
      else None)"
  proof (cases "uid \<in> idOf ` set (take a last')")
    case False
    then show ?thesis by (simp add: lastLoop_other)
  next
    case True
    then obtain k where k: "k < length (take a last')" "k < length last'"
      "take a last' ! k = last' ! k" "idOf (last' ! k) = uid"
      by (rule in_take_nth)
    show ?thesis
      using lastLoop_at[OF dla k(1), of current 0 "[]"] at_distinct[OF dl k(2)] k True
      by auto
  qed
  show ?thesis
  proof (cases "uid \<in> idOf ` set (take b current)")
    case False
    then show ?thesis using first by (simp add: g a b currentLoop_other)
  next
    case True
    then obtain k where k: "k < length (take b current)" "k < length current"
      "take b current ! k = current ! k" "idOf (current ! k) = uid"
      by (rule in_take_nth)
    show ?thesis
      using currentLoop_at[OF dcb k(1), of last' 0 ?ds] at_distinct[OF dc k(2)] k True first
      by (auto simp: g a b)
  qed
qed

lemma member_rankIn: "(uid \<in> idOf ` set xs) = (rankIn uid xs \<noteq> \<infinity>)"
proof -
  have "(\<exists>x\<in>set xs. toID (name x) = uid) = (uid \<in> idOf ` set xs)"
    by (auto simp: idOf_def)
  then show ?thesis
    using takeWhile_not_less[of "\<lambda>e. toID (name e) = uid" xs]
    by (simp add: rankIn_def findIndex_def Let_def)
qed

lemma rankIn_take:
  "rankIn uid (take m xs) = (if rankIn uid xs \<le> enat m then rankIn uid xs else \<infinity>)"
  by (auto simp: rankIn_def findIndex_def Let_def length_takeWhile_take min_def)

lemma firstN_window:
  assumes "case num of None \<Rightarrow> True | Some n \<Rightarrow> 0 \<le> n"
  shows "\<exists>m. firstN num xs = take m xs \<and> firstN num ys = take m ys"
proof (cases "num = None \<or> num = Some 0")
  case True
  then have "firstN num xs = take (max (length xs) (length ys)) xs \<and>
    firstN num ys = take (max (length xs) (length ys)) ys"
    by (auto simp: firstN_def)
  then show ?thesis ..
next
  case False
  then obtain n where "num = Some n" "0 < n" using assms by (cases num) auto
  then have "firstN num xs = take (nat \<lfloor>n\<rfloor>) xs \<and> firstN num ys = take (nat \<lfloor>n\<rfloor>) ys"
    by (simp add: firstN_def slice0_def toInteger_def)
  then show ?thesis ..
qed

lemma toID_letters:
  "toID ''A'' = ''a''" "toID ''B'' = ''b''" "toID ''C'' = ''c''" "toID ''D'' = ''d''"
  by code_simp+

lemma getDiffs_example:
  "getDiffs (ex_last a b c) (ex_current b' a' d') num0 =
     [(''a'', ''A'', a', 1, 2), (''b'', ''B'', b', 2, 1),
      (''c'', ''C'', Num 0, 3, \<infinity>), (''d'', ''D'', d', \<infinity>, 3)]"
  if "num0 = None \<or> num0 = Some 3"
  using that
  by (auto simp: getDiffs_def firstN_def slice0_def toInteger_def ex_last_def ex_current_def
      lastStep_def currentStep_def findIndex_def toID_letters Let_def one_enat_def
      numeral_eq_enat)

text \<open>
  C1. For two leaderboards in which no id occurs twice and a window that is absent or not
  negative, \<open>getDiffs\<close> holds a record for an id exactly when the id's rank among the
  first entries compared of the old board differs from its rank among the first entries
  compared of the new one (a rank is \<^verbatim>\<open>Infinity\<close> for an id that is not there). For
  the boards A, B, C and B, A, D, with no window or the window 3, the result is the four
  records A: 1 to 2, B: 2 to 1, C: 3 to \<^verbatim>\<open>Infinity\<close> with rating 0, D:
  \<^verbatim>\<open>Infinity\<close> to 3.
\<close>

theorem getDiffs_record_iff:
  assumes "distinct (map idOf last')" and "distinct (map idOf current)"
    and "case num of None \<Rightarrow> True | Some n \<Rightarrow> 0 \<le> n"
  shows "((uid \<in> fst ` set (getDiffs last' current num)) =
            (rankIn uid (firstN num last') \<noteq> rankIn uid (firstN num current)))
       \<and> getDiffs (ex_last a b c) (ex_current b' a' d') None =
            [(''a'', ''A'', a', 1, 2), (''b'', ''B'', b', 2, 1),
             (''c'', ''C'', Num 0, 3, \<infinity>), (''d'', ''D'', d', \<infinity>, 3)]
       \<and> getDiffs (ex_last a b c) (ex_current b' a' d') (Some 3) =
            [(''a'', ''A'', a', 1, 2), (''b'', ''B'', b', 2, 1),
             (''c'', ''C'', Num 0, 3, \<infinity>), (''d'', ''D'', d', \<infinity>, 3)]"
proof -
  obtain m where m: "firstN num last' = take m last'" "firstN num current = take m current"
    using firstN_window[OF assms(3)] by blast
  have "(uid \<in> fst ` set (getDiffs last' current num)) =
          (map_of (getDiffs last' current num) uid \<noteq> None)"
    by (simp add: dom_map_of_conv_image_fst[symmetric] domIff)
  also have "\<dots> = ((rankIn uid (take m last') \<noteq> \<infinity> \<or> rankIn uid (take m current) \<noteq> \<infinity>)
      \<and> rankIn uid last' \<noteq> rankIn uid current)"
    by (simp add: map_of_getDiffs[OF assms(1,2)] member_rankIn m)
  also have "\<dots> = (rankIn uid (take m last') \<noteq> rankIn uid (take m current))"
    by (cases "rankIn uid last'"; cases "rankIn uid current") (auto simp: rankIn_take)
  finally have "(uid \<in> fst ` set (getDiffs last' current num)) =
      (rankIn uid (firstN num last') \<noteq> rankIn uid (firstN num current))"
    by (simp add: m)
  then show ?thesis by (simp add: getDiffs_example)
qed

theorem getDiffs_record_iff_witness:
  "distinct (map idOf far_last) \<and> distinct (map idOf far_current)
   \<and> ''a'' \<in> fst ` set (getDiffs far_last far_current (Some 2))
   \<and> rankIn ''a'' (firstN (Some 2) far_last) = 1
   \<and> rankIn ''a'' (firstN (Some 2) far_current) = \<infinity>"
proof -
  have l: "distinct (map idOf far_last)" by code_simp
  have c: "distinct (map idOf far_current)" by code_simp
  have w: "case Some (2::real) of None \<Rightarrow> True | Some n \<Rightarrow> 0 \<le> n" by simp
  have r: "rankIn ''a'' (firstN (Some 2) far_last) = 1"
    "rankIn ''a'' (firstN (Some 2) far_current) = \<infinity>" by code_simp+
  show ?thesis
    using getDiffs_record_iff[OF l c w, of "''a''"] l c r by simp
qed

text \<open>
  C2 (amended). The window restricts only the entries each loop runs over; every lookup
  scans the whole other list. When no id occurs twice in either leaderboard, the record of
  an id that is among the first entries compared of either board holds the id's rank in the
  whole old board and its rank and rating in the whole new board; the new rank is
  \<^verbatim>\<open>Infinity\<close> and the rating 0 only when the id is nowhere in the new board, and
  the old rank is \<^verbatim>\<open>Infinity\<close> only when the id is nowhere in the old board. The
  record exists exactly when these two ranks differ.
\<close>

theorem getDiffs_full_lookup:
  assumes "distinct (map idOf last')" and "distinct (map idOf current)"
  shows "map_of (getDiffs last' current num) uid =
     (if (uid \<in> idOf ` set (firstN num last') \<or> uid \<in> idOf ` set (firstN num current))
         \<and> rankIn uid last' \<noteq> rankIn uid current
      then Some (if uid \<in> idOf ` set (firstN num current) then nameIn uid current
                 else nameIn uid last',
                 eloIn uid current, rankIn uid last', rankIn uid current)
      else None)"
  using assms by (rule map_of_getDiffs)

theorem getDiffs_full_lookup_witness:
  "distinct (map idOf far_last) \<and> distinct (map idOf far_current)
   \<and> map_of (getDiffs far_last far_current (Some 2)) ''c'' = Some (''C'', Num 1350, 3, 2)"
proof -
  have l: "distinct (map idOf far_last)" by code_simp
  have c: "distinct (map idOf far_current)" by code_simp
  have v: "''c'' \<in> idOf ` set (firstN (Some 2) far_current)"
    "rankIn ''c'' far_last = 3" "rankIn ''c'' far_current = 2"
    "nameIn ''c'' far_current = ''C''" "eloIn ''c'' far_current = Num 1350"
    by code_simp+
  show ?thesis
    using getDiffs_full_lookup[OF l c, of "Some 2" "''c''"] l c v by simp
qed

text \<open>
  As stated, C2 fails: with the window 2, A is first in the old board and fourth in the
  new one, outside the first two entries B, C; its record holds the new rank 4 and the
  rating 1100 of the fourth entry, not \<^verbatim>\<open>Infinity\<close> and 0.
\<close>

theorem getDiffs_full_lookup_counterexample:
  "''a'' \<in> idOf ` set (firstN (Some 2) far_last)
   \<and> ''a'' \<notin> idOf ` set (firstN (Some 2) far_current)
   \<and> map_of (getDiffs far_last far_current (Some 2)) ''a'' = Some (''A'', Num 1100, 1, 4)
   \<and> map_of (getDiffs far_last far_current (Some 2)) ''a'' \<noteq> Some (''A'', Num 0, 1, \<infinity>)"
  by code_simp

section \<open>Properties of tracking changes\<close>

lemma crossesCutoff_iff:
  "crossesCutoff n (nm, e, oldrank, newrank) = ((enat n < oldrank) \<noteq> (enat n < newrank))"
  by (auto simp: crossesCutoff_def)

lemma changesLoop_changed:
  "fst (changesLoop n display ds (ch, ms)) = (ch \<or> (\<exists>d\<in>set ds. \<not> crossesCutoff n d))"
  by (induction ds arbitrary: ch ms) auto

text \<open>
  C3 (amended). With leaderboard tracking on (a current board and a cutoff \<open>n\<close> that is
  not 0), \<open>trackChanges\<close> raises the flag \<open>changed\<close> exactly when some diff record
  stays on one side of the cutoff: both ranks beyond \<open>n\<close>, or both at or below it. A
  record that crosses the cutoff is not flagged, whichever way it crosses, so the test
  treats the two directions alike; and the flag is never lowered here.
\<close>

theorem trackChanges_flags_same_side:
  assumes "leaderboard_current st = Some cur" and "config_cutoff st = Some n" and "n \<noteq> 0"
  shows "changed (trackChanges st lb display) =
           (changed st \<or>
            (\<exists>d \<in> snd ` set (getDiffs cur lb (Some (real n * FACTOR))).
               case d of (nm, e, oldrank, newrank) \<Rightarrow> (enat n < oldrank) = (enat n < newrank)))"
proof -
  let ?ds = "getDiffs cur lb (Some (real n * FACTOR))"
  let ?sorted = "sort_key (\<lambda>(name', elo', oldrank, newrank). newrank) (map snd ?ds)"
  have same: "(\<not> crossesCutoff n d) =
      (case d of (nm, e, oldrank, newrank) \<Rightarrow> (enat n < oldrank) = (enat n < newrank))" for d
    by (cases d) (auto simp: crossesCutoff_def)
  show ?thesis
  proof (cases "?ds = []")
    case True
    then show ?thesis using assms by (simp add: trackChanges_def)
  next
    case False
    have "changed (trackChanges st lb display) = fst (changesLoop n display ?sorted (changed st, []))"
      using assms False
      by (simp add: trackChanges_def Let_def report_def split_def)
    also have "\<dots> = (changed st \<or> (\<exists>d\<in>set ?sorted. \<not> crossesCutoff n d))"
      by (rule changesLoop_changed)
    finally show ?thesis by (simp add: same)
  qed
qed

theorem trackChanges_flags_same_side_witness:
  "leaderboard_current (tracking 3) = Some (ex_last (Num 1500) (Num 1400) (Num 1300))
   \<and> config_cutoff (tracking 3) = Some 3
   \<and> changed (trackChanges (tracking 3) swapped_board True)"
proof -
  have c: "leaderboard_current (tracking 3) = Some (ex_last (Num 1500) (Num 1400) (Num 1300))"
    and n: "config_cutoff (tracking 3) = Some 3"
    by (simp_all add: tracking_def)
  have z: "(3::nat) \<noteq> 0" by simp
  have ex: "\<exists>d \<in> snd ` set (getDiffs (ex_last (Num 1500) (Num 1400) (Num 1300))
       swapped_board (Some (real 3 * FACTOR))).
       case d of (nm, e, oldrank, newrank) \<Rightarrow> (enat 3 < oldrank) = (enat 3 < newrank)"
    by code_simp
  show ?thesis
    using trackChanges_flags_same_side[OF c n z, of swapped_board True] c n ex
    by simp
qed

text \<open>
  As stated, C3 fails. With the cutoff 3, A and B swap the ranks 1 and 2: neither record
  crosses the cutoff, and the flag is raised. With the cutoff 1 the same two records cross
  it, one in each direction, and the flag stays down.
\<close>

theorem trackChanges_flags_same_side_counterexample:
  "map snd (getDiffs (ex_last (Num 1500) (Num 1400) (Num 1300)) swapped_board (Some (real 3 * FACTOR)))
     = [(''A'', Num 1400, 1, 2), (''B'', Num 1500, 2, 1)]
   \<and> \<not> crossesCutoff 3 (''A'', Num 1400, 1, 2) \<and> \<not> crossesCutoff 3 (''B'', Num 1500, 2, 1)
   \<and> \<not> changed (tracking 3)
   \<and> changed (trackChanges (tracking 3) swapped_board False)
   \<and> map snd (getDiffs (ex_last (Num 1500) (Num 1400) (Num 1300)) swapped_board (Some (real 1 * FACTOR)))
     = [(''A'', Num 1400, 1, 2), (''B'', Num 1500, 2, 1)]
   \<and> crossesCutoff 1 (''A'', Num 1400, 1, 2) \<and> crossesCutoff 1 (''B'', Num 1500, 2, 1)
   \<and> \<not> changed (trackChanges (tracking 1) swapped_board False)"
  by code_simp

section \<open>Properties of the top log\<close>

lemma asNumber_numberJSON: "asNumber (numberJSON x) = Some (reloadNumber x)"
  by (cases x) (simp_all add: asNumber_def numberJSON_def reloadNumber_def)

lemma asStat_statJSON: "asStat (statJSON s) = Some (reloadStat s)"
  by (simp add: asStat_def statJSON_def field_def asNumber_numberJSON reloadStat_def)

lemma asUserLog_userLogJSON: "asUserLog (userLogJSON e) = Some (reloadUserLog e)"
  by (simp add: asUserLog_def userLogJSON_def field_def asString_def asStat_statJSON
        asNumber_numberJSON reloadUserLog_def)

lemma asLogs_userLogs:
  "asLogs (JObject (map (\<lambda>(userid, e). (userid, userLogJSON e)) l))
     = Some (map (\<lambda>(userid, e). (userid, reloadUserLog e)) l)"
  by (induction l) (auto simp: asLogs_def asUserLog_userLogJSON)

lemma asTopLog_stringify: "asTopLog (stringify tops) = Some (reloadTopLog tops)"
  by (simp add: asTopLog_def stringify_def field_def asString_def asLogs_userLogs reloadTopLog_def)

text \<open>What the program saved is read back as a top log, the numbers that were not finite as \<^verbatim>\<open>null\<close>.\<close>

lemma getTopLog_saveTopLog: "getTopLog st (saveTopLog tops) = Inr (Log (reloadTopLog tops))"
  by (simp add: getTopLog_def saveTopLog_def asTopLog_stringify)

lemma reloadNumber_finite: "isFinite x \<Longrightarrow> reloadNumber x = x"
  by (cases x) (simp_all add: isFinite_def reloadNumber_def)

lemma reloadUserLog_finite: "finiteUserLog e \<Longrightarrow> reloadUserLog e = e"
  by (simp add: finiteUserLog_def finiteStat_def reloadUserLog_def reloadStat_def reloadNumber_finite)

lemma reloadTopLog_finite: "finiteTopLog tops \<Longrightarrow> reloadTopLog tops = tops"
proof -
  assume "finiteTopLog tops"
  then have "map (\<lambda>(userid, e). (userid, reloadUserLog e)) (logs tops) = logs tops"
    unfolding finiteTopLog_def
    by (induction "logs tops" arbitrary: tops) (auto simp: reloadUserLog_finite list_all_iff intro!: map_idI)
  then show ?thesis by (simp add: reloadTopLog_def)
qed

text \<open>
  On a missing file and on a file that the program saved, the update stays within the
  model: its result is a file written or an error of the script.
\<close>

lemma updateTopLog_in_model:
  "updateTopLog st Missing u w l d \<noteq> Inl Unmodelled"
  "updateTopLog st (saveTopLog tops) u w l d \<noteq> Inl Unmodelled"
proof -
  show "updateTopLog st Missing u w l d \<noteq> Inl Unmodelled"
    by (auto simp: updateTopLog_def getTopLog_def checkPrefix_def sameTop_def Let_def
        split: option.splits)
  show "updateTopLog st (saveTopLog tops) u w l d \<noteq> Inl Unmodelled"
    by (auto simp: updateTopLog_def getTopLog_saveTopLog checkPrefix_def sameTop_def Let_def
        split: option.splits)
qed

lemma updateTopLog_loaded:
  assumes "getTopLog st file = Inr (Log tops)" and "topLog.prefix tops = Client.prefix st"
  shows "updateTopLog st file u w l d =
     (if toID u = currenttop tops
      then (case sameTop st tops (toID u) w l of
              Inl err \<Rightarrow> Inl err | Inr tops' \<Rightarrow> Inr (saveTopLog tops'))
      else Inr (saveTopLog (newTop tops (toID u) u w l d)))"
  using assms by (simp add: updateTopLog_def checkPrefix_def Let_def)

lemma toID_names: "toID ''Alice'' = ''alice''" "toID ''Bob'' = ''bob''"
  by code_simp+

text \<open>
  C5 (amended). When the file of the top log is missing, \<open>getTopLog\<close> returns the
  default log (the client's prefix, no top user, no entries) and does not fail. When the
  file is there and cannot be read, or is not the text of a JSON value, \<open>getTopLog\<close>
  fails with the error of the read or of the parse, and so does the update that called it,
  writing nothing.
\<close>

theorem getTopLog_missing_only:
  "getTopLog st Missing = Inr (Log \<lparr>topLog.prefix = Client.prefix st, currenttop = '''', logs = []\<rparr>)
   \<and> getTopLog st Unreadable = Inl ReadError
   \<and> getTopLog st Malformed = Inl SyntaxError
   \<and> updateTopLog st Unreadable u w l d = Inl ReadError
   \<and> updateTopLog st Malformed u w l d = Inl SyntaxError"
  by (simp add: getTopLog_def newTopLog_def updateTopLog_def)

text \<open>
  As stated, C5 fails: an unreadable file and a malformed one make \<open>getTopLog\<close> fail,
  where a missing file gives the default log.
\<close>

theorem getTopLog_missing_only_counterexample:
  "getTopLog client0 Unreadable = Inl ReadError
   \<and> getTopLog client0 Malformed = Inl SyntaxError
   \<and> getTopLog client0 Unreadable \<noteq> getTopLog client0 Missing
   \<and> getTopLog client0 Malformed \<noteq> getTopLog client0 Missing"
  by code_simp

text \<open>
  C9 (amended). A top log whose numbers are all finite is read back as it was saved: the
  same prefix, the same \<open>currenttop\<close> and the same entries, field by field.
\<close>

theorem topLog_round_trip:
  assumes "finiteTopLog tops"
  shows "getTopLog st (saveTopLog tops) = Inr (Log tops)"
  using assms by (simp add: getTopLog_saveTopLog reloadTopLog_finite)

theorem topLog_round_trip_witness:
  "finiteTopLog (tops_of ''gen8'' ''alice'')
   \<and> getTopLog client0 (saveTopLog (tops_of ''gen8'' ''alice'')) = Inr (Log (tops_of ''gen8'' ''alice''))"
proof -
  have f: "finiteTopLog (tops_of ''gen8'' ''alice'')" by code_simp
  show ?thesis using topLog_round_trip[OF f, of client0] f by simp
qed

text \<open>
  As stated, for every top log, C9 fails: the log that \<open>updateTopLog\<close> writes for a
  user whose counts are NaN is not read back as it was, its counts being saved as
  \<^verbatim>\<open>null\<close> and read back as \<^verbatim>\<open>null\<close>. Such a user is the first entry of the
  leaderboard read from a ladder file with its header line, when the prefix is empty.
\<close>

theorem topLog_round_trip_counterexample:
  "getTopLog client0 (saveTopLog nan_tops) \<noteq> Inr (Log nan_tops)
   \<and> updateTopLog client0 Missing ''Username'' NaN NaN noon = Inr (saveTopLog nan_tops)
   \<and> map (\<lambda>e. (name e, LeaderboardEntry.win e, LeaderboardEntry.lose e))
         (take 1 (fst (getLeaderboard client0 (Some ladder_text) False)))
       = [(''Username'', NaN, NaN)]"
  by code_simp

text \<open>
  C4. For an update on the stored log in force, one that was loaded and carries the
  client's prefix: when the incoming id is the stored \<open>currenttop\<close> and has an entry,
  the file written holds the log with that entry replaced by one whose \<open>ticks\<close> is the
  stored count plus 1 if the ladder is open, and the stored count if it is closed; when the
  incoming id is another one, the file written holds the log with that id on top and an
  entry of \<open>ticks\<close> 1 under it.
\<close>

theorem updateTopLog_ticks:
  assumes "getTopLog st file = Inr (Log tops)" and "topLog.prefix tops = Client.prefix st"
  shows "(toID u = currenttop tops \<and> map_of (logs tops) (toID u) = Some e \<longrightarrow>
            (\<exists>e'. updateTopLog st file u w l d =
                    Inr (saveTopLog (tops\<lparr>logs := AList.update (toID u) e' (logs tops)\<rparr>))
                  \<and> ticks e' = (if ladderopen st then num_add (ticks e) (Num 1) else ticks e)))
       \<and> (toID u \<noteq> currenttop tops \<longrightarrow>
            (\<exists>e'. updateTopLog st file u w l d =
                    Inr (saveTopLog (tops\<lparr>currenttop := toID u,
                                          logs := AList.update (toID u) e' (logs tops)\<rparr>))
                  \<and> ticks e' = Num 1))"
  by (auto simp: updateTopLog_loaded[OF assms] sameTop_def newTop_def Let_def)

theorem updateTopLog_ticks_witness:
  "getTopLog client0 (saveTopLog (tops_of [] ''alice'')) = Inr (Log (tops_of [] ''alice''))
   \<and> topLog.prefix (tops_of [] ''alice'') = Client.prefix client0
   \<and> ladderopen client0
   \<and> (\<exists>e'. updateTopLog client0 (saveTopLog (tops_of [] ''alice'')) ''Alice'' (Num 9) (Num 1) noon =
             Inr (saveTopLog ((tops_of [] ''alice'')
                    \<lparr>logs := AList.update ''alice'' e' (logs (tops_of [] ''alice''))\<rparr>))
           \<and> ticks e' = Num 6)
   \<and> (\<exists>e'. updateTopLog client0 (saveTopLog (tops_of [] ''alice'')) ''Bob'' (Num 9) (Num 1) noon =
             Inr (saveTopLog ((tops_of [] ''alice'')
                    \<lparr>currenttop := ''bob'',
                     logs := AList.update ''bob'' e' (logs (tops_of [] ''alice''))\<rparr>))
           \<and> ticks e' = Num 1)"
proof -
  have g: "getTopLog client0 (saveTopLog (tops_of [] ''alice'')) = Inr (Log (tops_of [] ''alice''))"
    by code_simp
  have p: "topLog.prefix (tops_of [] ''alice'') = Client.prefix client0" by code_simp
  have v: "ladderopen client0" "currenttop (tops_of [] ''alice'') = ''alice''"
    "map_of (logs (tops_of [] ''alice'')) ''alice'' = Some alice_log"
    "ticks alice_log = Num 5"
    by code_simp+
  show ?thesis
    using updateTopLog_ticks[OF g p, of "''Alice''" alice_log "Num 9" "Num 1" noon]
      updateTopLog_ticks[OF g p, of "''Bob''" alice_log "Num 9" "Num 1" noon] g p v
    by (simp add: toID_names numberOf_exact)
qed



text \<open>
  C6 (amended). For an update on a log that was loaded and carries the client's prefix,
  where the incoming id is not the stored \<open>currenttop\<close>: the file written holds the log
  with the same prefix, the incoming id as \<open>currenttop\<close>, a new entry under that id
  (both stats the incoming pair, streak 0, ticks 1), whether or not the id had an entry
  before, and every entry of another id as it was.
\<close>

theorem updateTopLog_new_top:
  assumes "getTopLog st file = Inr (Log tops)" and "topLog.prefix tops = Client.prefix st"
    and "toID u \<noteq> currenttop tops"
  shows "updateTopLog st file u w l d = Inr (saveTopLog (newTop tops (toID u) u w l d))
       \<and> topLog.prefix (newTop tops (toID u) u w l d) = topLog.prefix tops
       \<and> currenttop (newTop tops (toID u) u w l d) = toID u
       \<and> map_of (logs (newTop tops (toID u) u w l d)) (toID u) =
           Some \<lparr>username = u,
                 currentstat = \<lparr>stat.win = w, stat.lose = l\<rparr>,
                 originalstat = \<lparr>stat.win = w, stat.lose = l\<rparr>,
                 continuouswin = Num 0, starttime = formatDateTime d, ticks = Num 1\<rparr>
       \<and> (\<forall>k. k \<noteq> toID u \<longrightarrow>
             map_of (logs (newTop tops (toID u) u w l d)) k = map_of (logs tops) k)"
  using assms(3)
  by (simp add: updateTopLog_loaded[OF assms(1,2)] newTop_def update_conv')

theorem updateTopLog_new_top_witness:
  "getTopLog client0 (saveTopLog (tops_of [] ''alice'')) = Inr (Log (tops_of [] ''alice''))
   \<and> topLog.prefix (tops_of [] ''alice'') = Client.prefix client0
   \<and> toID ''Carol'' \<noteq> currenttop (tops_of [] ''alice'')
   \<and> updateTopLog client0 (saveTopLog (tops_of [] ''alice'')) ''Carol'' (Num 2) (Num 0) noon =
       Inr (saveTopLog (newTop (tops_of [] ''alice'') (toID ''Carol'') ''Carol'' (Num 2) (Num 0) noon))
   \<and> map_of (logs (newTop (tops_of [] ''alice'') (toID ''Carol'') ''Carol'' (Num 2) (Num 0) noon)) ''alice''
       = Some alice_log
   \<and> map_of (logs (newTop (tops_of [] ''alice'') (toID ''Carol'') ''Carol'' (Num 2) (Num 0) noon)) ''bob''
       = Some bob_log"
proof -
  have g: "getTopLog client0 (saveTopLog (tops_of [] ''alice'')) = Inr (Log (tops_of [] ''alice''))"
    by code_simp
  have p: "topLog.prefix (tops_of [] ''alice'') = Client.prefix client0" by code_simp
  have c: "toID ''Carol'' \<noteq> currenttop (tops_of [] ''alice'')" by code_simp
  have v: "''alice'' \<noteq> toID ''Carol''" "''bob'' \<noteq> toID ''Carol''"
    "map_of (logs (tops_of [] ''alice'')) ''alice'' = Some alice_log"
    "map_of (logs (tops_of [] ''alice'')) ''bob'' = Some bob_log"
    by code_simp+
  show ?thesis
    using updateTopLog_new_top[OF g p c, of "Num 2" "Num 0" noon] g p c v
    by simp
qed

text \<open>
  As stated, C6 fails: Bob is on top and Alice has an entry from an earlier reign; the
  update for Alice replaces her entry by a new one.
\<close>

theorem updateTopLog_new_top_counterexample:
  "getTopLog client0 (saveTopLog (tops_of [] ''bob'')) = Inr (Log (tops_of [] ''bob''))
   \<and> topLog.prefix (tops_of [] ''bob'') = Client.prefix client0
   \<and> toID ''Alice'' \<noteq> currenttop (tops_of [] ''bob'')
   \<and> map_of (logs (tops_of [] ''bob'')) (toID ''Alice'') = Some alice_log
   \<and> updateTopLog client0 (saveTopLog (tops_of [] ''bob'')) ''Alice'' (Num 9) (Num 1) noon =
       Inr (saveTopLog
             \<lparr>topLog.prefix = [], currenttop = ''alice'',
              logs = [(''bob'', bob_log),
                      (''alice'',
                       \<lparr>username = ''Alice'',
                        currentstat = \<lparr>stat.win = Num 9, stat.lose = Num 1\<rparr>,
                        originalstat = \<lparr>stat.win = Num 9, stat.lose = Num 1\<rparr>,
                        continuouswin = Num 0, starttime = ''2024-00-06 12:00'',
                        ticks = Num 1\<rparr>)]\<rparr>)
   \<and> alice_log \<noteq> \<lparr>username = ''Alice'',
                        currentstat = \<lparr>stat.win = Num 9, stat.lose = Num 1\<rparr>,
                        originalstat = \<lparr>stat.win = Num 9, stat.lose = Num 1\<rparr>,
                        continuouswin = Num 0, starttime = ''2024-00-06 12:00'',
                        ticks = Num 1\<rparr>"
  by code_simp

section \<open>Properties of the daily schedule\<close>

lemma div_mod_block:
  fixes a b r :: int
  assumes "0 < b" "0 \<le> r" "r < b"
  shows "(a * b + r) div b = a" "(a * b + r) mod b = r"
  using assms by simp_all

lemma mod_add_multiple:
  fixes m x r :: int
  assumes "m dvd x"
  shows "(x + r) mod m = r mod m"
proof -
  from assms obtain k where "x = m * k" ..
  then show ?thesis by simp
qed

lemma setHours_fields:
  "setHours h t div msPerHour = (t div msPerDay) * 24 + h"
  "setHours h t mod msPerMinute = t mod msPerMinute"
  "setHours h t mod msPerSecond = t mod msPerSecond"
proof -
  let ?x = "((t div msPerDay) * 24 + h) * msPerHour"
  have e: "setHours h t = ?x + t mod msPerHour"
    by (simp add: setHours_def msPerDay_def msPerHour_def algebra_simps)
  show "setHours h t div msPerHour = (t div msPerDay) * 24 + h"
    unfolding e by (rule div_mod_block) (simp_all add: msPerHour_def)
  have "msPerMinute dvd ?x" by (simp add: msPerHour_def msPerMinute_def)
  then have "setHours h t mod msPerMinute = (t mod msPerHour) mod msPerMinute"
    unfolding e by (rule mod_add_multiple)
  then show "setHours h t mod msPerMinute = t mod msPerMinute"
    by (simp add: msPerHour_def msPerMinute_def mod_mod_cancel)
  have "msPerSecond dvd ?x" by (simp add: msPerHour_def msPerSecond_def)
  then have "setHours h t mod msPerSecond = (t mod msPerHour) mod msPerSecond"
    unfolding e by (rule mod_add_multiple)
  then show "setHours h t mod msPerSecond = t mod msPerSecond"
    by (simp add: msPerHour_def msPerSecond_def mod_mod_cancel)
qed

lemma setMinutes_fields:
  "setMinutes m t div msPerMinute = (t div msPerHour) * 60 + m"
  "setMinutes m t mod msPerSecond = t mod msPerSecond"
proof -
  let ?x = "((t div msPerHour) * 60 + m) * msPerMinute"
  have e: "setMinutes m t = ?x + t mod msPerMinute"
    by (simp add: setMinutes_def msPerHour_def msPerMinute_def algebra_simps)
  show "setMinutes m t div msPerMinute = (t div msPerHour) * 60 + m"
    unfolding e by (rule div_mod_block) (simp_all add: msPerMinute_def)
  have "msPerSecond dvd ?x" by (simp add: msPerMinute_def msPerSecond_def)
  then have "setMinutes m t mod msPerSecond = (t mod msPerMinute) mod msPerSecond"
    unfolding e by (rule mod_add_multiple)
  then show "setMinutes m t mod msPerSecond = t mod msPerSecond"
    by (simp add: msPerMinute_def msPerSecond_def mod_mod_cancel)
qed

lemma set_time_of_day:
  "setSeconds 0 (setMinutes m (setHours h t)) =
     (t div msPerDay) * msPerDay + h * msPerHour + m * msPerMinute + t mod msPerSecond"
  by (simp add: setSeconds_def setMinutes_fields setHours_fields)
     (simp add: msPerDay_def msPerHour_def msPerMinute_def algebra_simps)

lemma next_time:
  "(let t0 = setSeconds 0 (setMinutes m (setHours h now))
    in Some (if now > t0 then t0 + msPerDay else t0)) =
   Some (let target = (now div msPerDay) * msPerDay + h * msPerHour + m * msPerMinute
                        + now mod msPerSecond
         in if target < now then target + msPerDay else target)"
  by (simp add: set_time_of_day Let_def)

lemma hoursMinutes_example:
  "hoursMinutes ''06:00'' = (Num 6, Num 0)" "hoursMinutes ''22:00'' = (Num 22, Num 0)"
  by code_simp+

lemma eleven_pm:
  "(D * msPerDay + 23 * msPerHour) div msPerDay = D"
  "(D * msPerDay + 23 * msPerHour) mod msPerSecond = 0"
proof -
  show "(D * msPerDay + 23 * msPerHour) div msPerDay = D"
    by (rule div_mod_block) (simp_all add: msPerDay_def msPerHour_def)
  have "msPerSecond dvd D * msPerDay + 23 * msPerHour"
    by (simp add: msPerDay_def msPerHour_def msPerSecond_def)
  then show "(D * msPerDay + 23 * msPerHour) mod msPerSecond = 0" by simp
qed

text \<open>
  C8 (amended). When the configured times of day read as two whole numbers, the next open
  time and the next close time are the configured hour and minute of the current day, at
  second 0 and with the milliseconds of the current time; the target is kept unless the
  current time is later than it, and is moved one day on otherwise. So with the open time
  06:00, the close time 22:00 and the current time 23:00:00.000 of a day \<open>D\<close>, the next
  close time is 22:00 of the day after, the next open time is 06:00 of the day after, and
  \<open>setDeadline\<close> with a valid deadline, when the loop is not running yet, leaves the
  ladder closed and the loop running.
\<close>

theorem next_times_and_bootstrap:
  assumes "hoursMinutes (config_open st) = (Num h, Num m)"
    and "hoursMinutes (config_close st) = (Num h', Num m')"
  shows "getNextOpenTime st now =
           Some (let target = (now div msPerDay) * msPerDay + h * msPerHour + m * msPerMinute
                                + now mod msPerSecond
                 in if target < now then target + msPerDay else target)
       \<and> getNextCloseTime st now =
           Some (let target = (now div msPerDay) * msPerDay + h' * msPerHour + m' * msPerMinute
                                + now mod msPerSecond
                 in if target < now then target + msPerDay else target)
       \<and> (config_open st = ''06:00'' \<and> config_close st = ''22:00'' \<and> \<not> looping st \<and> d \<noteq> 0 \<longrightarrow>
            getNextCloseTime st (D * msPerDay + 23 * msPerHour)
              = Some ((D + 1) * msPerDay + 22 * msPerHour)
          \<and> getNextOpenTime st (D * msPerDay + 23 * msPerHour)
              = Some ((D + 1) * msPerDay + 6 * msPerHour)
          \<and> \<not> ladderopen (setDeadline st (D * msPerDay + 23 * msPerHour) (Some d))
          \<and> looping (setDeadline st (D * msPerDay + 23 * msPerHour) (Some d)))"
proof -
  have gen: "getNextOpenTime st now =
           Some (let target = (now div msPerDay) * msPerDay + h * msPerHour + m * msPerMinute
                                + now mod msPerSecond
                 in if target < now then target + msPerDay else target)"
    "getNextCloseTime st now =
           Some (let target = (now div msPerDay) * msPerDay + h' * msPerHour + m' * msPerMinute
                                + now mod msPerSecond
                 in if target < now then target + msPerDay else target)"
    using assms by (simp_all add: getNextOpenTime_def getNextCloseTime_def next_time)
  have ex: "getNextCloseTime st (D * msPerDay + 23 * msPerHour)
              = Some ((D + 1) * msPerDay + 22 * msPerHour)
          \<and> getNextOpenTime st (D * msPerDay + 23 * msPerHour)
              = Some ((D + 1) * msPerDay + 6 * msPerHour)
          \<and> \<not> ladderopen (setDeadline st (D * msPerDay + 23 * msPerHour) (Some d))
          \<and> looping (setDeadline st (D * msPerDay + 23 * msPerHour) (Some d))"
    if c: "config_open st = ''06:00''" "config_close st = ''22:00''" and l: "\<not> looping st"
      and d: "d \<noteq> 0"
  proof -
    let ?now = "D * msPerDay + 23 * msPerHour"
    have t: "setSeconds 0 (setMinutes 0 (setHours k ?now)) = D * msPerDay + k * msPerHour" for k
      by (simp add: set_time_of_day eleven_pm)
    have o: "getNextOpenTime st' ?now = Some ((D + 1) * msPerDay + 6 * msPerHour)"
      if "config_open st' = ''06:00''" for st'
      using that
      by (simp add: getNextOpenTime_def hoursMinutes_example t Let_def)
         (simp add: msPerDay_def msPerHour_def algebra_simps)
    have cl: "getNextCloseTime st' ?now = Some ((D + 1) * msPerDay + 22 * msPerHour)"
      if "config_close st' = ''22:00''" for st'
      using that
      by (simp add: getNextCloseTime_def hoursMinutes_example t Let_def)
         (simp add: msPerDay_def msPerHour_def algebra_simps)
    have lt: "(D + 1) * msPerDay + 6 * msPerHour < (D + 1) * msPerDay + 22 * msPerHour"
      by (simp add: msPerHour_def)
    show ?thesis
      using c l d lt
      by (simp add: o cl setDeadline_def timeLess_def closeLadder_def report_def Let_def)
  qed
  show ?thesis using gen ex by blast
qed

theorem next_times_and_bootstrap_witness:
  "hoursMinutes (config_open client0) = (Num 6, Num 0)
   \<and> hoursMinutes (config_close client0) = (Num 22, Num 0)
   \<and> getNextOpenTime client0 (5 * msPerHour) = Some (6 * msPerHour)
   \<and> getNextCloseTime client0 (23 * msPerHour) = Some (msPerDay + 22 * msPerHour)
   \<and> getNextOpenTime client0 (23 * msPerHour) = Some (msPerDay + 6 * msPerHour)
   \<and> \<not> ladderopen (setDeadline client0 (23 * msPerHour) (Some (100 * msPerDay)))"
proof -
  have a: "hoursMinutes (config_open client0) = (Num 6, Num 0)"
    and b: "hoursMinutes (config_close client0) = (Num 22, Num 0)"
    by code_simp+
  have c: "config_open client0 = ''06:00''" "config_close client0 = ''22:00''"
    "\<not> looping client0" "100 * msPerDay \<noteq> 0"
    by (simp_all add: client0_def msPerDay_def)
  have n: "(5 * msPerHour) div msPerDay = 0" "(5 * msPerHour) mod msPerSecond = 0"
    by (simp_all add: msPerHour_def msPerDay_def msPerSecond_def)
  show ?thesis
    using next_times_and_bootstrap[OF a b, of "5 * msPerHour" "100 * msPerDay" 0] a b c n
    by (simp add: Let_def msPerMinute_def msPerHour_def)
qed

text \<open>
  As stated, C8 fails within the second that starts at the configured time: at
  06:00:00.500 the open time 06:00 has passed, and the next open time is that very
  instant, not 06:00 of the next day. Before the configured time the target carries the
  milliseconds of the clock: at 05:00:00.250 it is 06:00:00.250.
\<close>

theorem next_times_and_bootstrap_counterexample:
  "getNextOpenTime client0 (6 * msPerHour + 500) = Some (6 * msPerHour + 500)
   \<and> getNextOpenTime client0 (6 * msPerHour + 500) \<noteq> Some (msPerDay + 6 * msPerHour)
   \<and> getNextOpenTime client0 (5 * msPerHour + 250) = Some (6 * msPerHour + 250)
   \<and> getNextOpenTime client0 (5 * msPerHour + 250) \<noteq> Some (6 * msPerHour)"
  by code_simp

section \<open>Properties of reading the leaderboard\<close>

text \<open>
  C10. When the ladder file cannot be read, \<open>getLeaderboard\<close> returns the empty
  leaderboard and leaves the lookup and the current and last leaderboards of the client as
  they were: the client is unchanged, but for the notice sent when the call was made for
  display.
\<close>

theorem getLeaderboard_unreadable:
  "fst (getLeaderboard st None display) = []
   \<and> snd (getLeaderboard st None display) = (if display then report Read_failed st else st)
   \<and> leaderboard_lookup (snd (getLeaderboard st None display)) = leaderboard_lookup st
   \<and> leaderboard_current (snd (getLeaderboard st None display)) = leaderboard_current st
   \<and> leaderboard_last (snd (getLeaderboard st None display)) = leaderboard_last st"
  by (simp add: getLeaderboard_def report_def)

end
